theory Spec2Isabelle
  imports Main
begin

section \<open>The bisection driver of pkg/bisect/bisect.go\<close>

text \<open>
  The driver coordinates a version-control adapter, a builder and a test runner, all of
  which live outside the file. They are modelled as records of operations over an
  abstract world \<open>'w\<close>: every operation takes the world and returns its Go results
  together with the next world, so that an adapter with hidden state (a working tree, a
  flaky machine pool, a clock) is one instance among all. The driver's own \<open>env\<close> struct is
  a record that is passed along and returned updated. A Go result \<open>(T, error)\<close> whose value
  is dropped on error is a sum with \<open>Inl\<close> the error; where the source reads the value
  beside the error, the model returns both.

  Left out: the tracer (log lines and debug files), the semaphores, and the
  \<open>buildTime\<close>/\<open>testTime\<close> counters, which are only logged.
\<close>

subsection \<open>Data\<close>

type_synonym bytes = string

text \<open>\<open>vcs.BisectResult\<close>.\<close>

datatype BisectResult = BisectBad | BisectGood | BisectSkip

text \<open>\<open>vcs.Commit\<close>; the recipient lists are only logged.\<close>

record Commit =
  Hash :: string
  Title :: string
  Parents :: "string list"

text \<open>\<open>report.Report\<close>, the fields the driver reads or writes.\<close>

record Report =
  Report_Title :: string
  Report_Report :: bytes
  Report_Output :: bytes

text \<open>
  Errors made outside the package. \<open>osutil.VerboseError\<close> carries a title and an output,
  \<open>build.KernelError\<close> a report and an output; every value also carries the text its
  \<open>Error()\<close> method gives, which is computed by code outside the file.
\<close>

datatype ext_error =
    VerboseError string bytes string
  | KernelError bytes bytes string
  | OtherError string

fun ext_text :: "ext_error \<Rightarrow> string" where
  "ext_text (VerboseError title output txt) = txt"
| "ext_text (KernelError report output txt) = txt"
| "ext_text (OtherError txt) = txt"

text \<open>
  The errors the driver returns: one handed on from outside, one made with \<open>fmt.Errorf\<close>,
  the package's own \<open>InfraError\<close>, and the panic of a nil dereference.
\<close>

datatype error =
    Ext ext_error
  | Errorf string
  | InfraError string
  | NilDeref

fun error_text :: "error \<Rightarrow> string" where
  "error_text (Ext e) = ext_text e"
| "error_text (Errorf m) = m"
| "error_text (InfraError title) = title"
| "error_text NilDeref = ''invalid memory address or nil pointer dereference''"

fun is_InfraError :: "error \<Rightarrow> bool" where
  "is_InfraError (InfraError title) = True"
| "is_InfraError e = False"

record KernelConfig =
  Kernel_Repo :: string
  Kernel_Branch :: string
  Kernel_Commit :: string
  Kernel_CommitTitle :: string
  Kernel_Cmdline :: string
  Kernel_Sysctl :: string
  Kernel_Config :: bytes
  Kernel_BaselineConfig :: bytes
  Kernel_Userspace :: string

record SyzkallerConfig =
  Syzkaller_Repo :: string
  Syzkaller_Commit :: string
  Syzkaller_Descriptions :: string

record ReproConfig =
  Repro_Opts :: bytes
  Repro_Syz :: bytes
  Repro_C :: bytes

text \<open>\<open>mgrconfig.Config\<close>, the fields the driver uses.\<close>

record mgrconfig =
  TargetOS :: string
  TargetVMArch :: string
  VMType :: string
  KernelSrc :: string
  SysTarget :: string
  Cover :: bool

text \<open>\<open>Config\<close>; \<open>Timeout\<close> is a \<open>time.Duration\<close>, a signed count of nanoseconds.\<close>

record Config =
  Fix :: bool
  DefaultCompiler :: string
  CompilerType :: string
  Linker :: string
  BinDir :: string
  Ccache :: string
  Timeout :: int
  Kernel :: KernelConfig
  Syzkaller :: SyzkallerConfig
  Repro :: ReproConfig
  Manager :: mgrconfig

record Result =
  Result_Commits :: "Commit list"
  Result_Report :: "Report option"
  Result_Commit :: "Commit option"
  Result_Config :: bytes
  Result_NoopChange :: bool
  Result_IsRelease :: bool

text \<open>
  \<open>testResult\<close>. Every caller of \<open>test\<close> drops the record when \<open>test\<close> returns an error, and
  \<open>com\<close> is nil only then, so \<open>com\<close> is a commit here.
\<close>

record testResult =
  verdict :: BisectResult
  com :: Commit
  rep :: "Report option"
  kernelSign :: string

text \<open>
  The outcome of one trial, \<open>instance.EnvTestResult\<close>: its \<open>Error\<close> is nil, an
  \<open>instance.TestError\<close> (flags \<open>Infra\<close> and \<open>Boot\<close>), an \<open>instance.CrashError\<close> with its
  report, or an error of another type.
\<close>

datatype TrialError =
    TestError bool bool
  | CrashError Report
  | UnknownError string

record EnvTestResult =
  Error :: "TrialError option"

record BisectEnv =
  Compiler :: string
  BisectEnv_KernelConfig :: bytes

record BuildKernelConfig =
  CompilerBin :: string
  LinkerBin :: string
  CcacheBin :: string
  UserspaceDir :: string
  CmdlineFile :: string
  SysctlFile :: string
  KernelConfig :: bytes

record ImageDetails =
  Signature :: string
  CompilerID :: string

subsection \<open>Outside code that calls back\<close>

text \<open>
  \<open>Bisect\<close> and \<open>Minimize\<close> take a predicate of the driver and call it as often as they
  like, acting on the world in between. Such a call is a tree: it either returns, or changes
  the world, asks the predicate a question and goes on with a subtree chosen by the answer.
\<close>

datatype ('w, 'q, 'a, 'r) callback_proc =
    Return "'w \<Rightarrow> 'w" 'r
  | Invoke "'w \<Rightarrow> 'w" 'q "'a \<Rightarrow> ('w, 'q, 'a, 'r) callback_proc"

primrec run_proc :: "('q \<Rightarrow> 's \<Rightarrow> 'a \<times> 's) \<Rightarrow> (('w \<Rightarrow> 'w) \<Rightarrow> 's \<Rightarrow> 's) \<Rightarrow>
    ('w, 'q, 'a, 'r) callback_proc \<Rightarrow> 's \<Rightarrow> 'r \<times> 's" where
  "run_proc pred upd (Return f r) s = (r, upd f s)"
| "run_proc pred upd (Invoke f q k) s =
     (case pred q (upd f s) of (a, s') \<Rightarrow> run_proc pred upd (k a) s')"

subsection \<open>The collaborators\<close>

text \<open>\<open>vcs.Bisecter\<close> and \<open>vcs.ConfigMinimizer\<close>.\<close>

record 'w Bisecter =
  PrepareBisect :: "'w \<Rightarrow> ext_error option \<times> 'w"
  PreviousReleaseTags :: "string \<Rightarrow> string \<Rightarrow> 'w \<Rightarrow> (ext_error + string list) \<times> 'w"
  Bisect :: "string \<Rightarrow> string \<Rightarrow> 'w \<Rightarrow>
    ('w, unit, error + BisectResult, error + Commit list) callback_proc"
  IsRelease :: "string \<Rightarrow> 'w \<Rightarrow> (bool \<times> ext_error option) \<times> 'w"
  EnvForCommit :: "string \<Rightarrow> string \<Rightarrow> string \<Rightarrow> string \<Rightarrow> bytes \<Rightarrow> 'w \<Rightarrow>
    (ext_error + BisectEnv) \<times> 'w"

record 'w ConfigMinimizer =
  Minimize :: "string \<Rightarrow> bytes \<Rightarrow> bytes \<Rightarrow> 'w \<Rightarrow>
    ('w, bytes, error + BisectResult, error + bytes) callback_proc"

text \<open>
  \<open>vcs.Repo\<close>. The type assertions \<open>repo.(vcs.Bisecter)\<close> and \<open>repo.(vcs.ConfigMinimizer)\<close>
  are the two optional fields.
\<close>

record 'w Repo =
  CheckoutBranch :: "string \<Rightarrow> string \<Rightarrow> 'w \<Rightarrow> (ext_error + Commit) \<times> 'w"
  HeadCommit :: "'w \<Rightarrow> (ext_error + Commit) \<times> 'w"
  SwitchCommit :: "string \<Rightarrow> 'w \<Rightarrow> (ext_error + Commit) \<times> 'w"
  Contains :: "string \<Rightarrow> 'w \<Rightarrow> (ext_error + bool) \<times> 'w"
  GetCommitByTitle :: "string \<Rightarrow> 'w \<Rightarrow> (ext_error + Commit option) \<times> 'w"
  asBisecter :: "'w Bisecter option"
  asConfigMinimizer :: "'w ConfigMinimizer option"

text \<open>\<open>instance.Env\<close>.\<close>

record 'w InstanceEnv =
  BuildSyzkaller :: "string \<Rightarrow> string \<Rightarrow> 'w \<Rightarrow> ext_error option \<times> 'w"
  BuildKernel :: "BuildKernelConfig \<Rightarrow> 'w \<Rightarrow> (ImageDetails \<times> ext_error option) \<times> 'w"
  Test :: "nat \<Rightarrow> bytes \<Rightarrow> bytes \<Rightarrow> bytes \<Rightarrow> 'w \<Rightarrow> (ext_error + EnvTestResult list) \<times> 'w"

text \<open>
  The package-level functions the driver calls: \<open>osutil.IsExist\<close>, \<open>vcs.NewRepo\<close>,
  \<open>instance.NewEnv\<close>, \<open>build.Clean\<close>, \<open>hash.Hash\<close>, the clock \<open>time.Now\<close> and the printing of
  a \<open>time.Duration\<close>.
\<close>

record 'w Pkgs =
  IsExist :: "string \<Rightarrow> 'w \<Rightarrow> bool"
  NewRepo :: "string \<Rightarrow> string \<Rightarrow> string \<Rightarrow> 'w \<Rightarrow> (ext_error + 'w Repo) \<times> 'w"
  NewEnv :: "mgrconfig \<Rightarrow> 'w \<Rightarrow> (ext_error + 'w InstanceEnv) \<times> 'w"
  Clean :: "string \<Rightarrow> string \<Rightarrow> string \<Rightarrow> string \<Rightarrow> 'w \<Rightarrow> ext_error option \<times> 'w"
  hash_Hash :: "bytes \<Rightarrow> string"
  Now :: "'w \<Rightarrow> int"
  Duration_String :: "int \<Rightarrow> string"

subsection \<open>The session state\<close>

text \<open>
  The \<open>env\<close> struct. \<open>cfg\<close> is a pointer the driver writes through (\<open>Kernel.Commit\<close>,
  \<open>Manager.Cover\<close>), so the configuration is part of the state. \<open>numTests\<close> is a Go \<open>int\<close>
  that only counts up from zero.
\<close>

record 'w env =
  cfg :: Config
  repo :: "'w Repo"
  bisecter :: "'w Bisecter"
  minimizer :: "'w ConfigMinimizer option"
  commit :: "Commit option"
  head :: "Commit option"
  kernelConfig :: bytes
  inst :: "'w InstanceEnv"
  numTests :: nat
  startTime :: int
  flaky :: bool
  world :: 'w

definition on_world :: "('w \<Rightarrow> 'r \<times> 'w) \<Rightarrow> 'w env \<Rightarrow> 'r \<times> 'w env" where
  "on_world f s = (case f (world s) of (r, w) \<Rightarrow> (r, s\<lparr>world := w\<rparr>))"

definition MaxNumTests :: nat where
  "MaxNumTests = 20"

subsection \<open>The test harness\<close>

text \<open>
  \<open>env.build\<close>: the head commit, the toolchain for it, a clean tree, the kernel. The
  signature of the image is returned beside the error of \<open>BuildKernel\<close>.
\<close>

definition build :: "'w Pkgs \<Rightarrow> 'w env \<Rightarrow> (Commit option \<times> string \<times> error option) \<times> 'w env" where
  "build P s =
    (case on_world (HeadCommit (repo s)) s of
       (Inl err, s1) \<Rightarrow> ((None, [], Some (Ext err)), s1)
     | (Inr current, s1) \<Rightarrow>
        (case on_world (EnvForCommit (bisecter s1) (DefaultCompiler (cfg s1))
                (CompilerType (cfg s1)) (BinDir (cfg s1)) (Hash current) (kernelConfig s1)) s1 of
           (Inl err, s2) \<Rightarrow> ((Some current, [], Some (Ext err)), s2)
         | (Inr bisectEnv, s2) \<Rightarrow>
            (let mgr = Manager (cfg s2) in
             case on_world (Clean P (TargetOS mgr) (TargetVMArch mgr) (VMType mgr) (KernelSrc mgr)) s2 of
               (Some err, s3) \<Rightarrow>
                 ((Some current, [], Some (Errorf (''kernel clean failed: '' @ ext_text err))), s3)
             | (None, s3) \<Rightarrow>
                (let kern = Kernel (cfg s3) in
                 case on_world (BuildKernel (inst s3)
                        \<lparr>CompilerBin = Compiler bisectEnv,
                         LinkerBin = Linker (cfg s3),
                         CcacheBin = Ccache (cfg s3),
                         UserspaceDir = Kernel_Userspace kern,
                         CmdlineFile = Kernel_Cmdline kern,
                         SysctlFile = Kernel_Sysctl kern,
                         KernelConfig = BisectEnv_KernelConfig bisectEnv\<rparr>) s3 of
                   ((imageDetails, err), s4) \<Rightarrow>
                     ((Some current, Signature imageDetails, map_option Ext err), s4)))))"

text \<open>
  \<open>env.processResults\<close>: the loop over the trials with its four results as accumulators.
  A crash overwrites \<open>rep\<close>, so the report of the last crash stays.
\<close>

fun processResults_loop ::
  "EnvTestResult list \<Rightarrow> nat \<Rightarrow> nat \<Rightarrow> nat \<Rightarrow> Report option \<Rightarrow> nat \<times> nat \<times> nat \<times> Report option" where
  "processResults_loop [] bad good infra crep = (bad, good, infra, crep)"
| "processResults_loop (res # results) bad good infra crep =
    (case Error res of
       None \<Rightarrow> processResults_loop results bad (good + 1) infra crep
     | Some (TestError isInfra isBoot) \<Rightarrow>
         (if isInfra then processResults_loop results bad good (infra + 1) crep
          else processResults_loop results bad good infra crep)
     | Some (CrashError r) \<Rightarrow> processResults_loop results (bad + 1) good infra (Some r)
     | Some (UnknownError txt) \<Rightarrow> processResults_loop results bad good (infra + 1) crep)"

definition processResults :: "EnvTestResult list \<Rightarrow> nat \<times> nat \<times> nat \<times> Report option" where
  "processResults results = processResults_loop results 0 0 0 None"

text \<open>The title of the report of a failed build, by the type of the error.\<close>

fun build_errInfo :: "Commit \<Rightarrow> error \<Rightarrow> string" where
  "build_errInfo current (Ext (VerboseError title output txt)) =
     ''failed building '' @ Hash current @ '': '' @ title"
| "build_errInfo current (Ext (KernelError report output txt)) =
     ''failed building '' @ Hash current @ '': '' @ report"
| "build_errInfo current err =
     ''failed building '' @ Hash current @ '': '' @ error_text err"

definition title_report :: "string \<Rightarrow> Report" where
  "title_report t = \<lparr>Report_Title = t, Report_Report = [], Report_Output = []\<rparr>"

text \<open>\<open>env.test\<close>.\<close>

definition test :: "'w Pkgs \<Rightarrow> 'w env \<Rightarrow> (error + testResult) \<times> 'w env" where
  "test P s =
    (if Timeout (cfg s) \<noteq> 0 \<and> Now P (world s) - startTime s > Timeout (cfg s)
     then (Inl (Errorf (''bisection is taking too long (>'' @ Duration_String P (Timeout (cfg s))
                          @ ''), aborting'')), s)
     else
       (case build P s of
          ((None, sign, err), s1) \<Rightarrow>
            (Inl (Errorf (''couldn't get repo HEAD: '' @
                    (case err of None \<Rightarrow> ''<nil>'' | Some e \<Rightarrow> error_text e))), s1)
        | ((Some current, sign, Some err), s1) \<Rightarrow>
            (Inr \<lparr>verdict = BisectSkip, com = current,
                  rep = Some (title_report (build_errInfo current err)),
                  kernelSign = sign\<rparr>, s1)
        | ((Some current, sign, None), s1) \<Rightarrow>
            (let n0 = MaxNumTests div 2;
                 n = (if flaky s1 \<or> numTests s1 = 0 then n0 * 2 else n0);
                 s2 = s1\<lparr>numTests := numTests s1 + 1\<rparr>
             in case on_world (Test (inst s2) n (Repro_Syz (Repro (cfg s2)))
                                 (Repro_Opts (Repro (cfg s2))) (Repro_C (Repro (cfg s2)))) s2 of
                  (Inl err, s3) \<Rightarrow>
                    (Inl (InfraError (''repro testing failure: '' @ ext_text err)), s3)
                | (Inr results, s3) \<Rightarrow>
                    (case processResults results of
                       (bad, good, infra, r) \<Rightarrow>
                         if infra > length results div 2
                         then (Inl (InfraError ''more than 50% of runs failed with an infra error''), s3)
                         else if bad \<noteq> 0
                         then (Inr \<lparr>verdict = BisectBad, com = current, rep = r,
                                    kernelSign = sign\<rparr>,
                               if \<not> flaky s3 \<and> bad < good then s3\<lparr>flaky := True\<rparr> else s3)
                         else if good \<noteq> 0
                         then (Inr \<lparr>verdict = BisectGood, com = current, rep = r,
                                    kernelSign = sign\<rparr>, s3)
                         else (Inr \<lparr>verdict = BisectSkip, com = current,
                                    rep = Some (title_report
                                      (''failed testing reproducer on '' @ Hash current)),
                                    kernelSign = sign\<rparr>, s3)))))"

subsection \<open>Commit resolution\<close>

text \<open>
  \<open>env.identifyRewrittenCommit\<close> returns a hash and an error; the caller stores the hash
  before it looks at the error, so both are returned.
\<close>

definition identifyRewrittenCommit :: "'w env \<Rightarrow> (string \<times> error option) \<times> 'w env" where
  "identifyRewrittenCommit s =
    (let k = Kernel (cfg s) in
     case on_world (CheckoutBranch (repo s) (Kernel_Repo k) (Kernel_Branch k)) s of
       (Inl err, s1) \<Rightarrow> ((Kernel_Commit k, Some (Ext err)), s1)
     | (Inr c, s1) \<Rightarrow>
        (case on_world (Contains (repo s1) (Kernel_Commit k)) s1 of
           (Inl err, s2) \<Rightarrow> ((Kernel_Commit k, Some (Ext err)), s2)
         | (Inr True, s2) \<Rightarrow> ((Kernel_Commit k, None), s2)
         | (Inr False, s2) \<Rightarrow>
            (if Kernel_CommitTitle k = []
             then ((Kernel_Commit k, Some (Errorf (''commit '' @ Kernel_Commit k @
                      '' not reachable in branch '' @ [CHR 0x27] @ Kernel_Branch k @ [CHR 0x27] @
                      '' and no commit title available''))), s2)
             else
               (case on_world (GetCommitByTitle (repo s2) (Kernel_CommitTitle k)) s2 of
                  (Inl err, s3) \<Rightarrow> ((Kernel_Commit k, Some (Ext err)), s3)
                | (Inr None, s3) \<Rightarrow>
                    ((Kernel_Commit k, Some (Errorf (''commit '' @ Kernel_Commit k @
                        '' not reachable in branch '' @ [CHR 0x27] @ Kernel_Branch k @
                        [CHR 0x27]))), s3)
                | (Inr (Some found), s3) \<Rightarrow> ((Hash found, None), s3)))))"

subsection \<open>Config minimization\<close>

text \<open>
  The closures \<open>predMinimize\<close> and \<open>pred\<close> write a local map beside the session state, so
  the state they run on is the pair of the two. \<open>upd_world\<close> lets the outside code act on
  the world inside that pair.
\<close>

definition upd_world :: "('w \<Rightarrow> 'w) \<Rightarrow> 'x \<times> 'w env \<Rightarrow> 'x \<times> 'w env" where
  "upd_world f = (\<lambda>(x, s). (x, s\<lparr>world := f (world s)\<rparr>))"

definition predMinimize :: "'w Pkgs \<Rightarrow> bytes \<Rightarrow> (string \<rightharpoonup> testResult) \<times> 'w env \<Rightarrow>
    (error + BisectResult) \<times> ((string \<rightharpoonup> testResult) \<times> 'w env)" where
  "predMinimize P candidate = (\<lambda>(testResults, s).
     case test P (s\<lparr>kernelConfig := candidate\<rparr>) of
       (Inl err, s1) \<Rightarrow> (Inl err, (testResults, s1))
     | (Inr testRes, s1) \<Rightarrow>
         (Inr (verdict testRes), (testResults(hash_Hash P candidate \<mapsto> testRes), s1)))"

text \<open>\<open>env.minimizeConfig\<close>; calling \<open>Minimize\<close> on a nil minimizer panics.\<close>

definition minimizeConfig :: "'w Pkgs \<Rightarrow> 'w env \<Rightarrow> (error + testResult option) \<times> 'w env" where
  "minimizeConfig P s =
    (case minimizer s of
       None \<Rightarrow> (Inl NilDeref, s)
     | Some m \<Rightarrow>
        (case run_proc (predMinimize P) upd_world
                (Minimize m (SysTarget (Manager (cfg s))) (Kernel_Config (Kernel (cfg s)))
                   (Kernel_BaselineConfig (Kernel (cfg s))) (world s))
                (Map.empty, s) of
           (Inl err, (testResults, s1)) \<Rightarrow> (Inl err, s1)
         | (Inr minConfig, (testResults, s1)) \<Rightarrow>
             (Inr (testResults (hash_Hash P minConfig)), s1\<lparr>kernelConfig := minConfig\<rparr>)))"

subsection \<open>Noop-change detection\<close>

text \<open>
  \<open>env.detectNoopChange\<close>. The culprit's result is read through a pointer that is nil when
  the map has no entry; the panic is the error \<open>NilDeref\<close> here.
\<close>

definition detectNoopChange :: "'w Pkgs \<Rightarrow> (string \<rightharpoonup> testResult) \<Rightarrow> Commit \<Rightarrow> 'w env \<Rightarrow>
    (bool \<times> error option) \<times> 'w env" where
  "detectNoopChange P results c s =
    (case results (Hash c) of
       None \<Rightarrow> ((False, Some NilDeref), s)
     | Some testRes \<Rightarrow>
        (if kernelSign testRes = [] \<or> length (Parents c) \<noteq> 1 then ((False, None), s)
         else
           (let parent = Parents c ! 0 in
            case results parent of
              Some parentRes \<Rightarrow> ((kernelSign testRes = kernelSign parentRes, None), s)
            | None \<Rightarrow>
               (case on_world (SwitchCommit (repo s) parent) s of
                  (Inl err, s1) \<Rightarrow> ((False, Some (Ext err)), s1)
                | (Inr switched, s1) \<Rightarrow>
                   (case build P s1 of
                      ((current, sign, Some err), s2) \<Rightarrow> ((False, Some err), s2)
                    | ((current, sign, None), s2) \<Rightarrow>
                        ((kernelSign testRes = sign, None), s2))))))"

subsection \<open>The range finder\<close>

text \<open>\<open>env.commitRangeForFix\<close>.\<close>

definition commitRangeForFix :: "'w Pkgs \<Rightarrow> 'w env \<Rightarrow>
    (error + Commit option \<times> Commit option \<times> testResult list) \<times> 'w env" where
  "commitRangeForFix P s =
    (case head s of
       None \<Rightarrow> (Inl NilDeref, s)
     | Some h \<Rightarrow>
        (case on_world (SwitchCommit (repo s) (Hash h)) s of
           (Inl err, s1) \<Rightarrow> (Inl (Ext err), s1)
         | (Inr switched, s1) \<Rightarrow>
            (case test P s1 of
               (Inl err, s2) \<Rightarrow> (Inl err, s2)
             | (Inr res, s2) \<Rightarrow>
                 (if verdict res \<noteq> BisectGood then (Inr (head s2, None, [res]), s2)
                  else (Inr (head s2, commit s2, [res]), s2)))))"

text \<open>
  The loop of \<open>env.commitRangeForCause\<close> over the tags, with \<open>lastBad\<close> and \<open>results\<close> as
  accumulators.
\<close>

fun commitRangeForCause_loop :: "'w Pkgs \<Rightarrow> string list \<Rightarrow> Commit option \<Rightarrow> testResult list \<Rightarrow>
    'w env \<Rightarrow> (error + Commit option \<times> Commit option \<times> testResult list) \<times> 'w env" where
  "commitRangeForCause_loop P [] lastBad results s = (Inr (lastBad, None, results), s)"
| "commitRangeForCause_loop P (tag # tags) lastBad results s =
    (case on_world (SwitchCommit (repo s) tag) s of
       (Inl err, s1) \<Rightarrow> (Inl (Ext err), s1)
     | (Inr c, s1) \<Rightarrow>
        (case test P s1 of
           (Inl err, s2) \<Rightarrow> (Inl err, s2)
         | (Inr res, s2) \<Rightarrow>
             (if verdict res = BisectGood then (Inr (lastBad, Some c, results @ [res]), s2)
              else commitRangeForCause_loop P tags
                     (if verdict res = BisectBad then Some c else lastBad) (results @ [res]) s2)))"

definition commitRangeForCause :: "'w Pkgs \<Rightarrow> 'w env \<Rightarrow>
    (error + Commit option \<times> Commit option \<times> testResult list) \<times> 'w env" where
  "commitRangeForCause P s =
    (case on_world (PreviousReleaseTags (bisecter s) (Kernel_Commit (Kernel (cfg s)))
                      (CompilerType (cfg s))) s of
       (Inl err, s1) \<Rightarrow> (Inl (Ext err), s1)
     | (Inr tags, s1) \<Rightarrow>
         (if length tags = 0 then (Inl (Errorf ''no release tags before this commit''), s1)
          else commitRangeForCause_loop P tags (commit s1) [] s1))"

text \<open>
  \<open>env.validateCommitRange\<close> returns a result, an error, or neither; it only reads the
  state.
\<close>

definition validateCommitRange :: "'w env \<Rightarrow> Commit option \<Rightarrow> Commit option \<Rightarrow> testResult list \<Rightarrow>
    error + Result option" where
  "validateCommitRange s bad good results =
    (if length results < 1 then Inl (Errorf ''commitRange returned no results'')
     else
       (let finalResult = results ! (length results - 1) in
        if verdict finalResult = BisectBad
        then Inr (Some \<lparr>Result_Commits = [], Result_Report = rep finalResult, Result_Commit = bad,
                        Result_Config = kernelConfig s, Result_NoopChange = False,
                        Result_IsRelease = False\<rparr>)
        else if verdict finalResult = BisectSkip
        then (if Fix (cfg s)
              then Inr (Some \<lparr>Result_Commits = [], Result_Report = rep finalResult,
                              Result_Commit = bad, Result_Config = kernelConfig s,
                              Result_NoopChange = False, Result_IsRelease = False\<rparr>)
              else Inl (Errorf ''oldest tested release had kernel build, boot or test errors''))
        else Inr None))"

text \<open>\<open>env.commitRange\<close>.\<close>

definition commitRange :: "'w Pkgs \<Rightarrow> 'w env \<Rightarrow>
    (error + Commit option \<times> Commit option \<times> testResult list \<times> Result option) \<times> 'w env" where
  "commitRange P s =
    (case (if Fix (cfg s) then commitRangeForFix P s else commitRangeForCause P s) of
       (Inl err, s1) \<Rightarrow> (Inl err, s1)
     | (Inr (bad, good, results1), s1) \<Rightarrow>
         (case validateCommitRange s1 bad good results1 of
            Inl err \<Rightarrow> (Inl err, s1)
          | Inr fatalResult \<Rightarrow> (Inr (bad, good, results1, fatalResult), s1)))"

subsection \<open>The search driver\<close>

text \<open>
  The closure \<open>pred\<close> of \<open>env.bisect\<close>. The test result is a pointer: in fix mode the
  verdict is swapped in the record itself, and that record is then stored and its verdict
  returned.
\<close>

definition bisect_pred :: "'w Pkgs \<Rightarrow> unit \<Rightarrow> (string \<rightharpoonup> testResult) \<times> 'w env \<Rightarrow>
    (error + BisectResult) \<times> ((string \<rightharpoonup> testResult) \<times> 'w env)" where
  "bisect_pred P u = (\<lambda>(results, s).
     case test P s of
       (Inl err, s1) \<Rightarrow> (Inl err, (results, s1))
     | (Inr testRes1, s1) \<Rightarrow>
         (let testRes2 =
            (if Fix (cfg s1)
             then (if verdict testRes1 = BisectBad then testRes1\<lparr>verdict := BisectGood\<rparr>
                   else if verdict testRes1 = BisectGood then testRes1\<lparr>verdict := BisectBad\<rparr>
                   else testRes1)
             else testRes1)
          in (Inr (verdict testRes2), (results(Hash (com testRes2) \<mapsto> testRes2), s1))))"

text \<open>
  \<open>env.bisect\<close> in three parts: the steps before the first test (\<open>PrepareBisect\<close> to the
  assignment of \<open>env.kernelConfig\<close>), the test at the starting commit with its check, and
  the rest from the minimization on.
\<close>

definition bisect_setup :: "'w Pkgs \<Rightarrow> 'w env \<Rightarrow> (error + unit) \<times> 'w env" where
  "bisect_setup P s =
    (case on_world (PrepareBisect (bisecter s)) s of
       (Some err, s1) \<Rightarrow> (Inl (Ext err), s1)
     | (None, s1) \<Rightarrow>
        (let mgr = Manager (cfg s1) in
         case on_world (Clean P (TargetOS mgr) (TargetVMArch mgr) (VMType mgr) (KernelSrc mgr)) s1 of
           (Some err, s2) \<Rightarrow> (Inl (Errorf (''kernel clean failed: '' @ ext_text err)), s2)
         | (None, s2) \<Rightarrow>
            (case on_world (BuildSyzkaller (inst s2) (Syzkaller_Repo (Syzkaller (cfg s2)))
                              (Syzkaller_Commit (Syzkaller (cfg s2)))) s2 of
               (Some err, s3) \<Rightarrow> (Inl (Ext err), s3)
             | (None, s3) \<Rightarrow>
                (case identifyRewrittenCommit s3 of
                   ((h, err), s4) \<Rightarrow>
                     (let s5 = s4\<lparr>cfg := (cfg s4)\<lparr>Kernel := (Kernel (cfg s4))\<lparr>Kernel_Commit := h\<rparr>\<rparr>\<rparr> in
                      case err of
                        Some e \<Rightarrow> (Inl e, s5)
                      | None \<Rightarrow>
                         (case on_world (SwitchCommit (repo s5) (Kernel_Commit (Kernel (cfg s5)))) s5 of
                            (Inl e, s6) \<Rightarrow> (Inl (Ext e), s6)
                          | (Inr c, s6) \<Rightarrow>
                              (Inr (), s6\<lparr>commit := Some c,
                                         kernelConfig := Kernel_Config (Kernel (cfg s6))\<rparr>)))))))"

definition bisect_search :: "'w Pkgs \<Rightarrow> testResult \<Rightarrow> 'w env \<Rightarrow> (error + Result) \<times> 'w env" where
  "bisect_search P testRes0 s =
    (case (if length (Kernel_BaselineConfig (Kernel (cfg s))) \<noteq> 0
           then (case minimizeConfig P s of
                   (Inl err, s1) \<Rightarrow> (Inl err, s1)
                 | (Inr None, s1) \<Rightarrow> (Inr testRes0, s1)
                 | (Inr (Some testRes1), s1) \<Rightarrow> (Inr testRes1, s1))
           else (Inr testRes0, s)) of
       (Inl err, s1) \<Rightarrow> (Inl err, s1)
     | (Inr testRes, s1) \<Rightarrow>
        (case commitRange P s1 of
           (Inl err, s2) \<Rightarrow> (Inl err, s2)
         | (Inr (bad, good, results1, Some fatalResult), s2) \<Rightarrow> (Inr fatalResult, s2)
         | (Inr (bad, good, results1, None), s2) \<Rightarrow>
            (let results = fold (\<lambda>res m. m(Hash (com res) \<mapsto> res)) results1
                             [Kernel_Commit (Kernel (cfg s2)) \<mapsto> testRes] in
             case (bad, good) of
               (Some b, Some g) \<Rightarrow>
                 (case run_proc (bisect_pred P) upd_world
                         (Bisect (bisecter s2) (Hash b) (Hash g) (world s2)) (results, s2) of
                    (Inl err, (results', s3)) \<Rightarrow> (Inl err, s3)
                  | (Inr commits, (results', s3)) \<Rightarrow>
                     (let res = \<lparr>Result_Commits = commits, Result_Report = None,
                                 Result_Commit = None, Result_Config = kernelConfig s3,
                                 Result_NoopChange = False, Result_IsRelease = False\<rparr> in
                      if length commits = 1
                      then
                        (let c = commits ! 0 in
                         case results' (Hash c) of
                           None \<Rightarrow> (Inl (Errorf ''no result for culprit commit''), s3)
                         | Some testRes' \<Rightarrow>
                            (case on_world (IsRelease (bisecter s3) (Hash c)) s3 of
                               ((isRelease, err), s4) \<Rightarrow>
                                 (case detectNoopChange P results' c s4 of
                                    ((noopChange, Some NilDeref), s5) \<Rightarrow> (Inl NilDeref, s5)
                                  | ((noopChange, err'), s5) \<Rightarrow>
                                      (Inr (res\<lparr>Result_Report := rep testRes',
                                                Result_IsRelease := isRelease,
                                                Result_NoopChange := noopChange\<rparr>), s5))))
                      else (Inr res, s3)))
             | (bad', good') \<Rightarrow> (Inl NilDeref, s2))))"

definition bisect :: "'w Pkgs \<Rightarrow> 'w env \<Rightarrow> (error + Result) \<times> 'w env" where
  "bisect P s =
    (case bisect_setup P s of
       (Inl err, s1) \<Rightarrow> (Inl err, s1)
     | (Inr u, s1) \<Rightarrow>
        (case test P s1 of
           (Inl err, s2) \<Rightarrow> (Inl err, s2)
         | (Inr testRes, s2) \<Rightarrow>
             (if verdict testRes \<noteq> BisectBad
              then (Inl (Errorf ''the crash wasn't reproduced on the original commit''), s2)
              else bisect_search P testRes s2)))"

text \<open>The \<open>env\<close> struct as \<open>runImpl\<close> first fills it; the other fields have their zero values.\<close>

definition new_env :: "'w Pkgs \<Rightarrow> Config \<Rightarrow> 'w Repo \<Rightarrow> 'w Bisecter \<Rightarrow> 'w InstanceEnv \<Rightarrow> 'w \<Rightarrow> 'w env" where
  "new_env P cfg0 repo0 b inst0 w =
     \<lparr>cfg = cfg0, repo = repo0, bisecter = b, minimizer = asConfigMinimizer repo0,
      commit = None, head = None, kernelConfig = [], inst = inst0, numTests = 0,
      startTime = Now P w, flaky = False, world = w\<rparr>"

text \<open>
  \<open>runImpl\<close>. After \<open>env.bisect\<close> the function only logs; the log of an empty \<open>Commits\<close>
  reads \<open>res.Commit.Title\<close>, which panics on a nil \<open>Commit\<close>. The deferred \<open>SwitchCommit\<close>
  back to the head runs last, its results dropped.
\<close>

definition runImpl :: "'w Pkgs \<Rightarrow> Config \<Rightarrow> 'w Repo \<Rightarrow> 'w InstanceEnv \<Rightarrow> 'w \<Rightarrow>
    (error + Result) \<times> 'w" where
  "runImpl P cfg0 repo0 inst0 w =
    (case asBisecter repo0 of
       None \<Rightarrow> (Inl (Errorf (''bisection is not implemented for '' @ TargetOS (Manager cfg0))), w)
     | Some b \<Rightarrow>
        (if asConfigMinimizer repo0 = None \<and> length (Kernel_BaselineConfig (Kernel cfg0)) \<noteq> 0
         then (Inl (Errorf (''config minimization is not implemented for '' @
                      TargetOS (Manager cfg0))), w)
         else
           (case on_world (HeadCommit repo0) (new_env P cfg0 repo0 b inst0 w) of
              (Inl err, s1) \<Rightarrow> (Inl (Ext err), world s1)
            | (Inr h, s1) \<Rightarrow>
               (case bisect P (s1\<lparr>head := Some h\<rparr>) of
                  (r, s2) \<Rightarrow>
                    (let w' = world (snd (on_world (SwitchCommit (repo s2) (Hash h)) s2)) in
                     case r of
                       Inl err \<Rightarrow> (Inl err, w')
                     | Inr res \<Rightarrow>
                         (if length (Result_Commits res) = 0 \<and> Result_Commit res = None
                          then (Inl NilDeref, w')
                          else (Inr res, w')))))))"

text \<open>\<open>checkConfig\<close> and \<open>Run\<close>.\<close>

definition checkConfig :: "'w Pkgs \<Rightarrow> Config \<Rightarrow> 'w \<Rightarrow> error option" where
  "checkConfig P c w =
    (if \<not> IsExist P (BinDir c) w
     then Some (Errorf (''bin dir '' @ BinDir c @ '' does not exist''))
     else if Kernel_Userspace (Kernel c) \<noteq> [] \<and> \<not> IsExist P (Kernel_Userspace (Kernel c)) w
     then Some (Errorf (''userspace dir '' @ Kernel_Userspace (Kernel c) @ '' does not exist''))
     else if Kernel_Sysctl (Kernel c) \<noteq> [] \<and> \<not> IsExist P (Kernel_Sysctl (Kernel c)) w
     then Some (Errorf (''sysctl file '' @ Kernel_Sysctl (Kernel c) @ '' does not exist''))
     else if Kernel_Cmdline (Kernel c) \<noteq> [] \<and> \<not> IsExist P (Kernel_Cmdline (Kernel c)) w
     then Some (Errorf (''cmdline file '' @ Kernel_Cmdline (Kernel c) @ '' does not exist''))
     else None)"

definition Run :: "'w Pkgs \<Rightarrow> Config \<Rightarrow> 'w \<Rightarrow> (error + Result) \<times> 'w" where
  "Run P cfg0 w =
    (case checkConfig P cfg0 w of
       Some err \<Rightarrow> (Inl err, w)
     | None \<Rightarrow>
        (let cfg1 = cfg0\<lparr>Manager := (Manager cfg0)\<lparr>Cover := False\<rparr>\<rparr> in
         case NewRepo P (TargetOS (Manager cfg1)) (VMType (Manager cfg1)) (KernelSrc (Manager cfg1)) w of
           (Inl err, w1) \<Rightarrow> (Inl (Ext err), w1)
         | (Inr repo0, w1) \<Rightarrow>
            (case NewEnv P (Manager cfg1) w1 of
               (Inl err, w2) \<Rightarrow> (Inl (Ext err), w2)
             | (Inr inst0, w2) \<Rightarrow>
                (case CheckoutBranch repo0 (Kernel_Repo (Kernel cfg1)) (Kernel_Branch (Kernel cfg1)) w2 of
                   (Inl err, w3) \<Rightarrow> (Inl (InfraError (ext_text err)), w3)
                 | (Inr c, w3) \<Rightarrow> runImpl P cfg1 repo0 inst0 w3))))"

section \<open>Notions of the specification\<close>

text \<open>
  The tally of the trials in the words of the specification: a clean success counts as
  good, a crash as bad, a test error flagged as infra and any error of another kind as
  infra; the representative report is that of a crash.
\<close>

definition ok_count :: "EnvTestResult list \<Rightarrow> nat" where
  "ok_count ts = length (filter (\<lambda>t. Error t = None) ts)"

fun is_crash :: "TrialError option \<Rightarrow> bool" where
  "is_crash (Some (CrashError r)) = True"
| "is_crash e = False"

fun is_infra :: "TrialError option \<Rightarrow> bool" where
  "is_infra (Some (TestError isInfra isBoot)) = isInfra"
| "is_infra (Some (UnknownError txt)) = True"
| "is_infra e = False"

definition crash_count :: "EnvTestResult list \<Rightarrow> nat" where
  "crash_count ts = length (filter (\<lambda>t. is_crash (Error t)) ts)"

definition infra_count :: "EnvTestResult list \<Rightarrow> nat" where
  "infra_count ts = length (filter (\<lambda>t. is_infra (Error t)) ts)"

fun crash_reports :: "EnvTestResult list \<Rightarrow> Report list" where
  "crash_reports [] = []"
| "crash_reports (t # ts) =
     (case Error t of Some (CrashError r) \<Rightarrow> r # crash_reports ts | _ \<Rightarrow> crash_reports ts)"

definition last_crash_report :: "EnvTestResult list \<Rightarrow> Report option" where
  "last_crash_report ts = (if crash_reports ts = [] then None else Some (last (crash_reports ts)))"

text \<open>The wall-clock budget is exhausted.\<close>

definition timed_out :: "'w Pkgs \<Rightarrow> 'w env \<Rightarrow> bool" where
  "timed_out P s = (Timeout (cfg s) \<noteq> 0 \<and> Timeout (cfg s) < Now P (world s) - startTime s)"

text \<open>
  What becomes of the outcome of the test runner once the trials have run: the steps
  ``tally'' to ``verdict'' of the test harness.
\<close>

definition tally_trials :: "Commit \<Rightarrow> string \<Rightarrow> (ext_error + EnvTestResult list) \<times> 'w env \<Rightarrow>
    (error + testResult) \<times> 'w env" where
  "tally_trials current sign = (\<lambda>(outcome, s3).
     case outcome of
       Inl err \<Rightarrow> (Inl (InfraError (''repro testing failure: '' @ ext_text err)), s3)
     | Inr results \<Rightarrow>
        (if length results div 2 < infra_count results
         then (Inl (InfraError ''more than 50% of runs failed with an infra error''), s3)
         else if crash_count results \<noteq> 0
         then (Inr \<lparr>verdict = BisectBad, com = current, rep = last_crash_report results,
                    kernelSign = sign\<rparr>,
               if \<not> flaky s3 \<and> crash_count results < ok_count results
               then s3\<lparr>flaky := True\<rparr> else s3)
         else if ok_count results \<noteq> 0
         then (Inr \<lparr>verdict = BisectGood, com = current, rep = last_crash_report results,
                    kernelSign = sign\<rparr>, s3)
         else (Inr \<lparr>verdict = BisectSkip, com = current,
                    rep = Some (title_report (''failed testing reproducer on '' @ Hash current)),
                    kernelSign = sign\<rparr>, s3)))"

text \<open>How far two session states may differ after a step of the driver.\<close>

definition same_but_world :: "'w env \<Rightarrow> 'w env \<Rightarrow> bool" where
  "same_but_world s s' = (\<exists>w. s' = s\<lparr>world := w\<rparr>)"

definition test_step :: "'w env \<Rightarrow> 'w env \<Rightarrow> bool" where
  "test_step s s' =
     (\<exists>w n f. s' = s\<lparr>numTests := n, flaky := f, world := w\<rparr> \<and> (flaky s \<longrightarrow> f) \<and> numTests s \<le> n)"

definition flaky_mono :: "'w env \<Rightarrow> 'w env \<Rightarrow> bool" where
  "flaky_mono s s' = (flaky s \<longrightarrow> flaky s')"

text \<open>The swap of good and bad.\<close>

fun flip_verdict :: "BisectResult \<Rightarrow> BisectResult" where
  "flip_verdict BisectBad = BisectGood"
| "flip_verdict BisectGood = BisectBad"
| "flip_verdict BisectSkip = BisectSkip"

text \<open>
  Testing a list of tags in order, each checked out and tested once, with the commit and the
  result of each; and the last revision of such a trace with a bad verdict, the given one if
  there is none.
\<close>

fun test_tags :: "'w Pkgs \<Rightarrow> string list \<Rightarrow> 'w env \<Rightarrow>
    (error + (Commit \<times> testResult) list) \<times> 'w env" where
  "test_tags P [] s = (Inr [], s)"
| "test_tags P (tag # tags) s =
    (case on_world (SwitchCommit (repo s) tag) s of
       (Inl err, s1) \<Rightarrow> (Inl (Ext err), s1)
     | (Inr c, s1) \<Rightarrow>
        (case test P s1 of
           (Inl err, s2) \<Rightarrow> (Inl err, s2)
         | (Inr res, s2) \<Rightarrow>
             (case test_tags P tags s2 of
                (Inl err, s3) \<Rightarrow> (Inl err, s3)
              | (Inr trace, s3) \<Rightarrow> (Inr ((c, res) # trace), s3))))"

definition last_bad :: "Commit option \<Rightarrow> (Commit \<times> testResult) list \<Rightarrow> Commit option" where
  "last_bad start trace =
     (case filter (\<lambda>cr. verdict (snd cr) = BisectBad) trace of
        [] \<Rightarrow> start
      | b # bs \<Rightarrow> Some (fst (last (b # bs))))"

section \<open>A small world for concrete runs\<close>

text \<open>
  A repository whose world is the checked-out hash and the configuration of the last
  kernel build; the outcome of the trials is a function of the two.
\<close>

type_synonym toy_world = "string \<times> bytes"

definition toy_commit :: "string \<Rightarrow> Commit" where
  "toy_commit h = \<lparr>Hash = h, Title = ''subject of '' @ h, Parents = []\<rparr>"

definition toy_bisecter :: "string list \<Rightarrow>
    (toy_world, unit, error + BisectResult, error + Commit list) callback_proc \<Rightarrow>
    toy_world Bisecter" where
  "toy_bisecter tags strategy =
     \<lparr>PrepareBisect = (\<lambda>w. (None, w)),
      PreviousReleaseTags = (\<lambda>h c w. (Inr tags, w)),
      Bisect = (\<lambda>b g w. strategy),
      IsRelease = (\<lambda>h w. ((False, None), w)),
      EnvForCommit = (\<lambda>dc ct bd h kc w. (Inr \<lparr>Compiler = dc, BisectEnv_KernelConfig = kc\<rparr>, w))\<rparr>"

definition toy_repo :: "string list \<Rightarrow> toy_world Bisecter option \<Rightarrow>
    toy_world ConfigMinimizer option \<Rightarrow> toy_world Repo" where
  "toy_repo reachable b m =
     \<lparr>CheckoutBranch = (\<lambda>r br w. (Inr (toy_commit ''head''), (''head'', snd w))),
      HeadCommit = (\<lambda>w. (Inr (toy_commit (fst w)), w)),
      SwitchCommit = (\<lambda>h w. (Inr (toy_commit h), (h, snd w))),
      Contains = (\<lambda>h w. (Inr (h \<in> set reachable), w)),
      GetCommitByTitle = (\<lambda>t w. (Inr (Some (toy_commit ''rewritten'')), w)),
      asBisecter = b,
      asConfigMinimizer = m\<rparr>"

definition toy_inst :: "(nat \<Rightarrow> toy_world \<Rightarrow> EnvTestResult list) \<Rightarrow> toy_world InstanceEnv" where
  "toy_inst trials =
     \<lparr>BuildSyzkaller = (\<lambda>r c w. (None, w)),
      BuildKernel = (\<lambda>bc w. ((\<lparr>Signature = ''sig of '' @ fst w, CompilerID = ''cc''\<rparr>, None),
                              (fst w, KernelConfig bc))),
      Test = (\<lambda>n syz opts c w. (Inr (trials n w), w))\<rparr>"

definition toy_pkgs :: "toy_world Repo \<Rightarrow> toy_world InstanceEnv \<Rightarrow> toy_world Pkgs" where
  "toy_pkgs r i =
     \<lparr>IsExist = (\<lambda>p w. True),
      NewRepo = (\<lambda>os t src w. (Inr r, w)),
      NewEnv = (\<lambda>m w. (Inr i, w)),
      Clean = (\<lambda>os arch t src w. (None, w)),
      hash_Hash = (\<lambda>b. b),
      Now = (\<lambda>w. 0),
      Duration_String = (\<lambda>d. ''some time'')\<rparr>"

definition toy_cfg :: "bool \<Rightarrow> bytes \<Rightarrow> string \<Rightarrow> Config" where
  "toy_cfg fix baseline start =
     \<lparr>Fix = fix, DefaultCompiler = ''gcc'', CompilerType = ''gcc'', Linker = ''ld'',
      BinDir = ''bin'', Ccache = [], Timeout = 0,
      Kernel = \<lparr>Kernel_Repo = ''url'', Kernel_Branch = ''master'', Kernel_Commit = start,
                Kernel_CommitTitle = ''subject'', Kernel_Cmdline = [], Kernel_Sysctl = [],
                Kernel_Config = ''full'', Kernel_BaselineConfig = baseline,
                Kernel_Userspace = []\<rparr>,
      Syzkaller = \<lparr>Syzkaller_Repo = ''url'', Syzkaller_Commit = ''syz'',
                   Syzkaller_Descriptions = []\<rparr>,
      Repro = \<lparr>Repro_Opts = [], Repro_Syz = ''prog'', Repro_C = []\<rparr>,
      Manager = \<lparr>TargetOS = ''linux'', TargetVMArch = ''amd64'', VMType = ''qemu'',
                 KernelSrc = ''src'', SysTarget = ''linux/amd64'', Cover = True\<rparr>\<rparr>"

definition toy_env :: "Config \<Rightarrow> toy_world Repo \<Rightarrow> toy_world Bisecter \<Rightarrow>
    toy_world InstanceEnv \<Rightarrow> toy_world env" where
  "toy_env c r b i =
     \<lparr>cfg = c, repo = r, bisecter = b, minimizer = asConfigMinimizer r,
      commit = Some (toy_commit ''start''), head = Some (toy_commit ''head''),
      kernelConfig = ''full'', inst = i, numTests = 0, startTime = 0, flaky = False,
      world = (''start'', [])\<rparr>"

definition ok_trial :: EnvTestResult where
  "ok_trial = \<lparr>Error = None\<rparr>"

definition crash_trial :: "string \<Rightarrow> EnvTestResult" where
  "crash_trial t = \<lparr>Error = Some (CrashError \<lparr>Report_Title = t, Report_Report = [], Report_Output = []\<rparr>)\<rparr>"

definition infra_trial :: EnvTestResult where
  "infra_trial = \<lparr>Error = Some (TestError True False)\<rparr>"

definition boot_trial :: EnvTestResult where
  "boot_trial = \<lparr>Error = Some (TestError False True)\<rparr>"

definition toy_trials :: "nat \<Rightarrow> toy_world \<Rightarrow> EnvTestResult list" where
  "toy_trials n w =
     (if snd w = ''base'' then replicate n ok_trial
      else if fst w = ''start'' then replicate 3 (crash_trial ''BUG'') @ replicate (n - 3) ok_trial
      else if fst w = ''v2'' then replicate n (crash_trial ''BUG'')
      else if fst w = ''v1'' then replicate n ok_trial
      else if fst w = ''head'' then replicate n boot_trial
      else replicate n infra_trial)"

definition B0 :: "toy_world Bisecter" where
  "B0 = toy_bisecter [''v2'', ''v1''] (Return id (Inr [toy_commit ''c1'']))"

definition M0 :: "toy_world ConfigMinimizer" where
  "M0 = \<lparr>Minimize = (\<lambda>target original baseline w.
            Invoke id baseline (\<lambda>answer. Return id (Inr baseline)))\<rparr>"

definition R0 :: "toy_world Repo" where
  "R0 = toy_repo [''start'', ''v1''] (Some B0) (Some M0)"

definition I0 :: "toy_world InstanceEnv" where
  "I0 = toy_inst toy_trials"

definition P0 :: "toy_world Pkgs" where
  "P0 = toy_pkgs R0 I0"

definition s0 :: "toy_world env" where
  "s0 = toy_env (toy_cfg False [] ''start'') R0 B0 I0"

text \<open>
  More bisecters: one that returns the commit of \<open>v2\<close> at once; one that checks out
  \<open>v0\<close>, asks the predicate once, and returns the commit of \<open>v2\<close> when the answer is an
  \<open>InfraError\<close> and an error of its own otherwise; one whose tags end in the head, and one
  whose tags end in \<open>v0\<close>.
\<close>

definition B2 :: "toy_world Bisecter" where
  "B2 = toy_bisecter [''v2'', ''v1''] (Return id (Inr [toy_commit ''v2'']))"

definition R2 :: "toy_world Repo" where
  "R2 = toy_repo [''start'', ''v1''] (Some B2) (Some M0)"



definition BS :: "toy_world Bisecter" where
  "BS = toy_bisecter [''v2'', ''head''] (Return id (Inr []))"

definition RS :: "toy_world Repo" where
  "RS = toy_repo [''start'', ''v1''] (Some BS) (Some M0)"







text \<open>A bisecter with no previous release tags.\<close>

definition BE :: "toy_world Bisecter" where
  "BE = toy_bisecter [] (Return id (Inr [toy_commit ''v2'']))"

definition RE :: "toy_world Repo" where
  "RE = toy_repo [''start'', ''v1''] (Some BE) (Some M0)"

section \<open>Lemmas\<close>

subsection \<open>What a step of the driver leaves unchanged\<close>

lemma on_world_eq: "on_world f s = (fst (f (world s)), s\<lparr>world := snd (f (world s))\<rparr>)"
  by (simp add: on_world_def split: prod.splits)

lemma sbw_refl: "same_but_world s s"
  unfolding same_but_world_def by (rule exI[of _ "world s"]) simp

lemma sbw_trans: "same_but_world s s1 \<Longrightarrow> same_but_world s1 s2 \<Longrightarrow> same_but_world s s2"
  unfolding same_but_world_def by auto

lemma sbw_on_world: "on_world f s = (r, s') \<Longrightarrow> same_but_world s s'"
  unfolding same_but_world_def on_world_eq by auto

lemma build_sbw: "build P s = (r, s') \<Longrightarrow> same_but_world s s'"
  unfolding build_def Let_def
  by (auto split: prod.splits sum.splits option.splits dest!: sbw_on_world intro: sbw_trans)


lemma test_step_refl: "test_step s s"
  unfolding test_step_def
  by (rule exI[of _ "world s"], rule exI[of _ "numTests s"], rule exI[of _ "flaky s"]) simp

lemma test_step_trans:
  assumes "test_step s s1" and "test_step s1 s2"
  shows "test_step s s2"
proof -
  from assms obtain w n f w' n' f' where
    a: "s1 = s\<lparr>numTests := n, flaky := f, world := w\<rparr>" "flaky s \<longrightarrow> f" "numTests s \<le> n" and
    b: "s2 = s1\<lparr>numTests := n', flaky := f', world := w'\<rparr>" "flaky s1 \<longrightarrow> f'" "numTests s1 \<le> n'"
    unfolding test_step_def by blast
  have "s2 = s\<lparr>numTests := n', flaky := f', world := w'\<rparr>" using a(1) b(1) by simp
  moreover have "flaky s \<longrightarrow> f'" using a b by simp
  moreover have "numTests s \<le> n'" using a b by simp
  ultimately show ?thesis unfolding test_step_def by blast
qed

lemma sbw_test_step: "same_but_world s s' \<Longrightarrow> test_step s s'"
  unfolding same_but_world_def test_step_def
  by (auto intro!: exI[of _ "numTests s"] exI[of _ "flaky s"])

lemma test_step_numTests: "test_step s (s\<lparr>numTests := numTests s + 1\<rparr>)"
  unfolding test_step_def
  by (rule exI[of _ "world s"], rule exI[of _ "numTests s + 1"], rule exI[of _ "flaky s"]) simp

lemma test_step_flaky: "test_step s (s\<lparr>flaky := True\<rparr>)"
  unfolding test_step_def
  by (rule exI[of _ "world s"], rule exI[of _ "numTests s"], rule exI[of _ "True"]) simp

lemma test_test_step: "test P s = (r, s') \<Longrightarrow> test_step s s'"
  unfolding test_def Let_def
  by (auto split: prod.splits sum.splits option.splits if_splits
        dest!: sbw_on_world build_sbw
        intro: test_step_refl sbw_test_step test_step_trans[OF sbw_test_step]
               test_step_trans[OF sbw_test_step test_step_trans[OF test_step_numTests sbw_test_step]]
               test_step_trans[OF sbw_test_step test_step_trans[OF test_step_numTests test_step_trans[OF sbw_test_step test_step_flaky]]])

lemma processResults_loop_eq:
  "processResults_loop ts b g i r =
     (b + crash_count ts, g + ok_count ts, i + infra_count ts,
      if crash_reports ts = [] then r else Some (last (crash_reports ts)))"
  by (induction ts arbitrary: b g i r)
     (auto simp: ok_count_def crash_count_def infra_count_def split: option.splits TrialError.splits)

lemma processResults_eq:
  "processResults ts = (crash_count ts, ok_count ts, infra_count ts, last_crash_report ts)"
  by (simp add: processResults_def processResults_loop_eq last_crash_report_def)

lemma crash_count_reports: "crash_count ts = length (crash_reports ts)"
  by (induction ts) (auto simp: crash_count_def split: option.splits TrialError.splits)

lemma test_tally:
  assumes "\<not> timed_out P s"
    and "build P s = ((Some current, sign, None), s1)"
    and "on_world (Test (inst s1) (if flaky s1 \<or> numTests s1 = 0 then 20 else 10)
            (Repro_Syz (Repro (cfg s1))) (Repro_Opts (Repro (cfg s1))) (Repro_C (Repro (cfg s1))))
          (s1\<lparr>numTests := numTests s1 + 1\<rparr>) = (Inr results, s3)"
  shows "test P s =
    (if length results div 2 < infra_count results
     then (Inl (InfraError ''more than 50% of runs failed with an infra error''), s3)
     else if crash_count results \<noteq> 0
     then (Inr \<lparr>verdict = BisectBad, com = current, rep = last_crash_report results, kernelSign = sign\<rparr>,
           if \<not> flaky s3 \<and> crash_count results < ok_count results then s3\<lparr>flaky := True\<rparr> else s3)
     else if ok_count results \<noteq> 0
     then (Inr \<lparr>verdict = BisectGood, com = current, rep = last_crash_report results, kernelSign = sign\<rparr>, s3)
     else (Inr \<lparr>verdict = BisectSkip, com = current,
                rep = Some (title_report (''failed testing reproducer on '' @ Hash current)),
                kernelSign = sign\<rparr>, s3))"
proof -
  have h: "(20::nat) div 2 = 10" "(10::nat) * 2 = 20" by simp_all
  have sel: "\<And>n. inst (s1\<lparr>numTests := n\<rparr>) = inst s1" "\<And>n. cfg (s1\<lparr>numTests := n\<rparr>) = cfg s1"
    by simp_all
  show ?thesis
    using assms(1) unfolding timed_out_def test_def
    by (simp only: if_False assms(2) prod.case option.case Let_def MaxNumTests_def h
          sel assms(3) sum.case processResults_eq)
qed

lemma flaky_mono_refl: "flaky_mono s s"
  by (simp add: flaky_mono_def)

lemma flaky_mono_trans: "flaky_mono s s1 \<Longrightarrow> flaky_mono s1 s2 \<Longrightarrow> flaky_mono s s2"
  by (simp add: flaky_mono_def)

lemma test_step_flaky_mono: "test_step s s' \<Longrightarrow> flaky_mono s s'"
  unfolding test_step_def flaky_mono_def by auto

lemma sbw_flaky_mono: "same_but_world s s' \<Longrightarrow> flaky_mono s s'"
  by (rule test_step_flaky_mono[OF sbw_test_step])

lemma test_flaky_mono: "test P s = (r, s') \<Longrightarrow> flaky_mono s s'"
  by (rule test_step_flaky_mono[OF test_test_step])

lemma on_world_flaky_mono: "on_world f s = (r, s') \<Longrightarrow> flaky_mono s s'"
  by (rule sbw_flaky_mono[OF sbw_on_world])

lemma flaky_mono_upd:
  "flaky_mono s (s\<lparr>kernelConfig := k\<rparr>)"
  "flaky_mono s (s\<lparr>cfg := c\<rparr>)"
  "flaky_mono s (s\<lparr>commit := co, kernelConfig := k\<rparr>)"
  "flaky_mono s (s\<lparr>world := w\<rparr>)"
  by (simp_all add: flaky_mono_def)

lemma run_proc_inv:
  assumes "\<And>f x. I x \<Longrightarrow> I (upd f x)" and "\<And>q x. I x \<Longrightarrow> I (snd (pred q x))"
  shows "I x \<Longrightarrow> I (snd (run_proc pred upd p x))"
proof (induction p arbitrary: x)
  case (Return f r)
  then show ?case using assms(1) by simp
next
  case (Invoke f q k)
  have "I (snd (pred q (upd f x)))" using Invoke.prems assms by blast
  then have "I (snd (run_proc pred upd (k (fst (pred q (upd f x)))) (snd (pred q (upd f x)))))"
    using Invoke.IH by blast
  then show ?case by (simp add: case_prod_beta)
qed

lemma identifyRewrittenCommit_sbw: "identifyRewrittenCommit s = (r, s') \<Longrightarrow> same_but_world s s'"
  unfolding identifyRewrittenCommit_def Let_def
  by (auto split: prod.splits sum.splits option.splits bool.splits if_splits
        dest!: sbw_on_world intro: sbw_trans)

lemma predMinimize_flaky: "flaky_mono st (snd x) \<Longrightarrow> flaky_mono st (snd (snd (predMinimize P c x)))"
  unfolding predMinimize_def
  by (auto split: prod.splits sum.splits dest!: test_flaky_mono
        intro: flaky_mono_trans[OF _ flaky_mono_trans[OF flaky_mono_upd(1)]])

lemma bisect_pred_flaky: "flaky_mono st (snd x) \<Longrightarrow> flaky_mono st (snd (snd (bisect_pred P u x)))"
  unfolding bisect_pred_def Let_def
  by (auto split: prod.splits sum.splits dest!: test_flaky_mono intro: flaky_mono_trans)

lemma upd_world_flaky: "flaky_mono st (snd x) \<Longrightarrow> flaky_mono st (snd (upd_world f x))"
  unfolding upd_world_def
  by (auto split: prod.splits intro: flaky_mono_trans[OF _ flaky_mono_upd(4)])

lemma minimizeConfig_flaky: "minimizeConfig P s = (r, s') \<Longrightarrow> flaky_mono s s'"
proof -
  assume a: "minimizeConfig P s = (r, s')"
  show ?thesis
  proof (cases "minimizer s")
    case None
    with a show ?thesis by (simp add: minimizeConfig_def flaky_mono_refl)
  next
    case (Some m)
    let ?run = "run_proc (predMinimize P) upd_world
                (Minimize m (SysTarget (Manager (cfg s))) (Kernel_Config (Kernel (cfg s)))
                   (Kernel_BaselineConfig (Kernel (cfg s))) (world s))
                (Map.empty, s)"
    have "flaky_mono s (snd (snd ?run))"
      by (rule run_proc_inv[where I = "\<lambda>x. flaky_mono s (snd x)"])
         (simp_all add: upd_world_flaky predMinimize_flaky flaky_mono_refl)
    with a Some show ?thesis
      unfolding minimizeConfig_def
      by (auto split: prod.splits sum.splits intro: flaky_mono_trans[OF _ flaky_mono_upd(1)])
  qed
qed

lemma detectNoopChange_sbw: "detectNoopChange P results c s = (r, s') \<Longrightarrow> same_but_world s s'"
  unfolding detectNoopChange_def Let_def
  by (auto split: prod.splits sum.splits option.splits if_splits
        dest!: sbw_on_world build_sbw intro: sbw_refl sbw_trans)

lemma commitRangeForFix_test_step: "commitRangeForFix P s = (r, s') \<Longrightarrow> test_step s s'"
  unfolding commitRangeForFix_def
  by (auto split: prod.splits sum.splits option.splits if_splits
        dest!: sbw_on_world test_test_step
        intro: test_step_refl sbw_test_step test_step_trans[OF sbw_test_step])

lemma commitRangeForCause_loop_test_step:
  "commitRangeForCause_loop P tags lastBad results s = (r, s') \<Longrightarrow> test_step s s'"
proof (induction tags arbitrary: lastBad results s)
  case Nil
  then show ?case by (simp add: test_step_refl)
next
  case (Cons tag tags)
  show ?case
  proof (cases "on_world (SwitchCommit (repo s) tag) s")
    case (Pair sw s1)
    then have s1: "test_step s s1" by (rule sbw_test_step[OF sbw_on_world])
    show ?thesis
    proof (cases sw)
      case (Inl err)
      with Cons.prems Pair s1 show ?thesis by simp
    next
      case (Inr c)
      show ?thesis
      proof (cases "test P s1")
        case (Pair t s2)
        then have s2: "test_step s s2" using s1 test_test_step test_step_trans by blast
        show ?thesis
        proof (cases t)
          case (Inl err)
          with Cons.prems \<open>on_world (SwitchCommit (repo s) tag) s = (sw, s1)\<close> \<open>sw = Inr c\<close> Pair s2
          show ?thesis by simp
        next
          case (Inr res)
          show ?thesis
          proof (cases "verdict res = BisectGood")
            case True
            with Cons.prems \<open>on_world (SwitchCommit (repo s) tag) s = (sw, s1)\<close> \<open>sw = Inr c\<close> Pair Inr s2
            show ?thesis by simp
          next
            case False
            with Cons.prems \<open>on_world (SwitchCommit (repo s) tag) s = (sw, s1)\<close> \<open>sw = Inr c\<close> Pair Inr
            have "commitRangeForCause_loop P tags
                     (if verdict res = BisectBad then Some c else lastBad) (results @ [res]) s2 = (r, s')"
              by simp
            then have "test_step s2 s'" by (rule Cons.IH)
            with s2 show ?thesis by (rule test_step_trans)
          qed
        qed
      qed
    qed
  qed
qed

lemma commitRangeForCause_test_step: "commitRangeForCause P s = (r, s') \<Longrightarrow> test_step s s'"
  unfolding commitRangeForCause_def
  by (auto split: prod.splits sum.splits if_splits
        dest!: sbw_on_world commitRangeForCause_loop_test_step
        intro: sbw_test_step test_step_trans[OF sbw_test_step])

lemma commitRange_test_step: "commitRange P s = (r, s') \<Longrightarrow> test_step s s'"
  unfolding commitRange_def
  by (auto split: prod.splits sum.splits if_splits
        dest!: commitRangeForCause_test_step commitRangeForFix_test_step)

lemma bisect_setup_flaky: "bisect_setup P s = (r, s') \<Longrightarrow> flaky_mono s s'"
  unfolding bisect_setup_def Let_def
  by (auto split: prod.splits sum.splits option.splits
        dest!: on_world_flaky_mono sbw_flaky_mono[OF identifyRewrittenCommit_sbw]
        intro: flaky_mono_trans flaky_mono_trans[OF _ flaky_mono_upd(2)]
          simp: flaky_mono_def)

lemma run_bisect_flaky:
  "run_proc (bisect_pred P) upd_world p (results, s) = (r, (results', s')) \<Longrightarrow> flaky_mono s s'"
proof -
  assume a: "run_proc (bisect_pred P) upd_world p (results, s) = (r, (results', s'))"
  have "flaky_mono s (snd (snd (run_proc (bisect_pred P) upd_world p (results, s))))"
    by (rule run_proc_inv[where I = "\<lambda>x. flaky_mono s (snd x)"])
       (simp_all add: upd_world_flaky bisect_pred_flaky flaky_mono_refl)
  with a show ?thesis by simp
qed

lemma bisect_search_flaky: "bisect_search P testRes0 s = (r, s') \<Longrightarrow> flaky_mono s s'"
  unfolding bisect_search_def Let_def
  by (auto split: prod.splits sum.splits option.splits if_splits error.splits
        dest!: minimizeConfig_flaky test_step_flaky_mono[OF commitRange_test_step]
               run_bisect_flaky on_world_flaky_mono sbw_flaky_mono[OF detectNoopChange_sbw]
        intro: flaky_mono_refl flaky_mono_trans
        simp: flaky_mono_def)

lemma bisect_flaky: "bisect P s = (r, s') \<Longrightarrow> flaky_mono s s'"
  unfolding bisect_def
  by (auto split: prod.splits sum.splits if_splits
        dest!: bisect_setup_flaky test_flaky_mono bisect_search_flaky
        simp: flaky_mono_def)

lemma pair_fst_snd: "fst x = a \<Longrightarrow> x = (a, snd x)"
  by auto

subsection \<open>The test harness once the trials have run\<close>

lemma test_eq_tally:
  assumes "\<not> timed_out P s"
    and "build P s = ((Some current, sign, None), s1)"
  shows "test P s = tally_trials current sign
           (on_world (Test (inst s1) (if flaky s1 \<or> numTests s1 = 0 then 20 else 10)
               (Repro_Syz (Repro (cfg s1))) (Repro_Opts (Repro (cfg s1))) (Repro_C (Repro (cfg s1))))
             (s1\<lparr>numTests := numTests s1 + 1\<rparr>))"
proof -
  let ?t = "on_world (Test (inst s1) (if flaky s1 \<or> numTests s1 = 0 then 20 else 10)
               (Repro_Syz (Repro (cfg s1))) (Repro_Opts (Repro (cfg s1))) (Repro_C (Repro (cfg s1))))
             (s1\<lparr>numTests := numTests s1 + 1\<rparr>)"
  obtain outcome s3 where t: "?t = (outcome, s3)" by (cases ?t)
  have h: "(20::nat) div 2 = 10" "(10::nat) * 2 = 20" by simp_all
  have sel: "\<And>n. inst (s1\<lparr>numTests := n\<rparr>) = inst s1" "\<And>n. cfg (s1\<lparr>numTests := n\<rparr>) = cfg s1"
    by simp_all
  show ?thesis
  proof (cases outcome)
    case (Inl err)
    have t': "?t = (Inl err, s3)" using t Inl by simp
    show ?thesis
      using assms(1) unfolding timed_out_def test_def
      by (simp only: if_False assms(2) prod.case option.case Let_def MaxNumTests_def h
            sel t' sum.case tally_trials_def)
  next
    case (Inr results)
    have t': "?t = (Inr results, s3)" using t Inr by simp
    show ?thesis
      using assms(1) unfolding timed_out_def test_def
      by (simp only: if_False assms(2) prod.case option.case Let_def MaxNumTests_def h
            sel t' sum.case processResults_eq tally_trials_def)
  qed
qed

lemma crash_reports_set:
  "x \<in> set (crash_reports ts) \<longleftrightarrow> (\<exists>t\<in>set ts. Error t = Some (CrashError x))"
  by (induction ts) (auto split: option.splits TrialError.splits)

lemma crash_count_pos:
  "crash_count ts \<noteq> 0 \<longleftrightarrow> (\<exists>t\<in>set ts. \<exists>x. Error t = Some (CrashError x))"
proof -
  have "crash_count ts \<noteq> 0 \<longleftrightarrow> crash_reports ts \<noteq> []"
    by (simp add: crash_count_reports)
  also have "\<dots> \<longleftrightarrow> (\<exists>x. x \<in> set (crash_reports ts))"
    by (cases "crash_reports ts") auto
  also have "\<dots> \<longleftrightarrow> (\<exists>t\<in>set ts. \<exists>x. Error t = Some (CrashError x))"
    unfolding crash_reports_set by blast
  finally show ?thesis .
qed

subsection \<open>The configuration in effect\<close>

lemma test_step_fields:
  "test_step s s' \<Longrightarrow> cfg s' = cfg s \<and> kernelConfig s' = kernelConfig s \<and> commit s' = commit s"
  unfolding test_step_def by auto

lemma sbw_fields:
  "same_but_world s s' \<Longrightarrow> cfg s' = cfg s \<and> kernelConfig s' = kernelConfig s \<and>
     commit s' = commit s \<and> flaky s' = flaky s \<and> numTests s' = numTests s \<and> inst s' = inst s"
  unfolding same_but_world_def by auto

lemma bisect_pred_kernelConfig:
  "kernelConfig (snd x) = k \<Longrightarrow> kernelConfig (snd (snd (bisect_pred P u x))) = k"
  unfolding bisect_pred_def Let_def
  by (auto split: prod.splits sum.splits dest!: test_test_step test_step_fields)

lemma upd_world_kernelConfig:
  "kernelConfig (snd x) = k \<Longrightarrow> kernelConfig (snd (upd_world f x)) = k"
  unfolding upd_world_def by (auto split: prod.splits)

lemma run_bisect_kernelConfig:
  assumes "run_proc (bisect_pred P) upd_world p (results, s) = (r, (results', s'))"
  shows "kernelConfig s' = kernelConfig s"
proof -
  have "kernelConfig (snd (snd (run_proc (bisect_pred P) upd_world p (results, s)))) = kernelConfig s"
    by (rule run_proc_inv[where I = "\<lambda>x. kernelConfig (snd x) = kernelConfig s"])
       (simp_all add: upd_world_kernelConfig bisect_pred_kernelConfig)
  with assms show ?thesis by simp
qed

subsection \<open>The walk over the release tags\<close>

lemma last_bad_Cons:
  "last_bad lb ((c, res) # trace) = last_bad (if verdict res = BisectBad then Some c else lb) trace"
  unfolding last_bad_def by (auto split: list.splits)

subsection \<open>From the range finder to the end of the run\<close>

lemma test_step_head: "test_step s s' \<Longrightarrow> head s' = head s"
  unfolding test_step_def by auto

lemma sbw_head: "same_but_world s s' \<Longrightarrow> head s' = head s"
  unfolding same_but_world_def by auto

lemma commitRangeForFix_bad:
  assumes "commitRangeForFix P s = (Inr (bad, good, rs), s')"
  shows "bad = head s \<and> bad \<noteq> None"
proof -
  from assms obtain h where h: "head s = Some h"
    unfolding commitRangeForFix_def by (cases "head s") auto
  have "head s' = head s"
    using test_step_head[OF commitRangeForFix_test_step[OF assms]] .
  moreover from assms h have "bad = head s'"
    unfolding commitRangeForFix_def
    by (auto split: prod.splits sum.splits if_splits)
  ultimately show ?thesis using h by simp
qed

lemma bisect_search_after_min:
  assumes "(Kernel_BaselineConfig (Kernel (cfg s)) = [] \<and> s1 = s) \<or>
           (Kernel_BaselineConfig (Kernel (cfg s)) \<noteq> [] \<and> (\<exists>x. minimizeConfig P s = (Inr x, s1)))"
  shows "commitRange P s1 = (Inl e, s2) \<Longrightarrow> bisect_search P t s = (Inl e, s2)"
    and "commitRange P s1 = (Inr (bad, good, rs, Some fr), s2) \<Longrightarrow> bisect_search P t s = (Inr fr, s2)"
proof -
  from assms consider
      (none) "Kernel_BaselineConfig (Kernel (cfg s)) = []" "s1 = s"
    | (some) x where "Kernel_BaselineConfig (Kernel (cfg s)) \<noteq> []" "minimizeConfig P s = (Inr x, s1)"
    by blast
  then have "(commitRange P s1 = (Inl e, s2) \<longrightarrow> bisect_search P t s = (Inl e, s2)) \<and>
             (commitRange P s1 = (Inr (bad, good, rs, Some fr), s2) \<longrightarrow>
                bisect_search P t s = (Inr fr, s2))"
  proof cases
    case none
    then show ?thesis unfolding bisect_search_def by simp
  next
    case some
    then show ?thesis unfolding bisect_search_def by (cases x) simp_all
  qed
  then show "commitRange P s1 = (Inl e, s2) \<Longrightarrow> bisect_search P t s = (Inl e, s2)"
    and "commitRange P s1 = (Inr (bad, good, rs, Some fr), s2) \<Longrightarrow> bisect_search P t s = (Inr fr, s2)"
    by blast+
qed

lemma runImpl_result:
  assumes "asBisecter repo0 = Some b"
    and "\<not> (asConfigMinimizer repo0 = None \<and> Kernel_BaselineConfig (Kernel cfg0) \<noteq> [])"
    and "on_world (HeadCommit repo0) (new_env P cfg0 repo0 b inst0 w) = (Inr h, s')"
    and "bisect P (s'\<lparr>head := Some h\<rparr>) = (r, s2)"
  shows "fst (runImpl P cfg0 repo0 inst0 w) =
           (case r of
              Inl err \<Rightarrow> Inl err
            | Inr res \<Rightarrow> if length (Result_Commits res) = 0 \<and> Result_Commit res = None
                         then Inl NilDeref else Inr res)"
  unfolding runImpl_def Let_def using assms
  by (auto split: sum.splits)

subsection \<open>The configuration that a result carries\<close>

lemma commitRange_kernelConfig:
  assumes "commitRange P s = (r, s')"
  shows "kernelConfig s' = kernelConfig s"
  using test_step_fields[OF commitRange_test_step[OF assms]] by simp

lemma on_world_kernelConfig:
  assumes "on_world f s = (r, s')"
  shows "kernelConfig s' = kernelConfig s"
  using sbw_fields[OF sbw_on_world[OF assms]] by simp

lemma detectNoopChange_kernelConfig:
  assumes "detectNoopChange P results c s = (r, s')"
  shows "kernelConfig s' = kernelConfig s"
  using sbw_fields[OF detectNoopChange_sbw[OF assms]] by simp

lemma commitRange_fatal_config:
  "commitRange P s = (Inr (bad, good, rs, Some fr), s') \<Longrightarrow> Result_Config fr = kernelConfig s'"
  unfolding commitRange_def validateCommitRange_def Let_def
  by (auto split: prod.splits sum.splits if_splits)

subsection \<open>The loop over the tags after a prefix without a good verdict\<close>

lemma commitRangeForCause_loop_prefix:
  assumes "test_tags P pre s = (Inr trace, s')"
    and "\<forall>cr\<in>set trace. verdict (snd cr) \<noteq> BisectGood"
  shows "commitRangeForCause_loop P (pre @ rest) lb rs s =
           commitRangeForCause_loop P rest (last_bad lb trace) (rs @ map snd trace) s'"
  using assms
proof (induction pre arbitrary: s trace lb rs)
  case Nil
  then show ?case by (simp add: last_bad_def)
next
  case (Cons tag pre)
  from Cons.prems(1) obtain c s1 where sw: "on_world (SwitchCommit (repo s) tag) s = (Inr c, s1)"
    by (auto split: prod.splits sum.splits)
  from Cons.prems(1) sw obtain res s2 where t: "test P s1 = (Inr res, s2)"
    by (auto split: prod.splits sum.splits)
  from Cons.prems(1) sw t obtain trace' where
    tt: "test_tags P pre s2 = (Inr trace', s')" and tr: "trace = (c, res) # trace'"
    by (auto split: prod.splits sum.splits)
  from Cons.prems(2) tr have ng: "verdict res \<noteq> BisectGood"
    and ng': "\<forall>cr\<in>set trace'. verdict (snd cr) \<noteq> BisectGood"
    by simp_all
  have "commitRangeForCause_loop P ((tag # pre) @ rest) lb rs s =
        commitRangeForCause_loop P (pre @ rest)
          (if verdict res = BisectBad then Some c else lb) (rs @ [res]) s2"
    using sw t ng by simp
  also have "\<dots> = commitRangeForCause_loop P rest
          (last_bad (if verdict res = BisectBad then Some c else lb) trace')
          ((rs @ [res]) @ map snd trace') s'"
    by (rule Cons.IH[OF tt ng'])
  finally show ?case by (simp add: tr last_bad_Cons)
qed

subsection \<open>The configuration through the search\<close>

lemma bisect_setup_kernelConfig:
  "bisect_setup P s = (Inr u, s') \<Longrightarrow> kernelConfig s' = Kernel_Config (Kernel (cfg s'))"
  unfolding bisect_setup_def Let_def
  by (auto split: prod.splits sum.splits option.splits dest!: sbw_fields[OF sbw_on_world])

lemma bisect_search_tail_kernelConfig:
  assumes "(Kernel_BaselineConfig (Kernel (cfg s)) = [] \<and> s1 = s) \<or>
           (Kernel_BaselineConfig (Kernel (cfg s)) \<noteq> [] \<and> (\<exists>x. minimizeConfig P s = (Inr x, s1)))"
    and "bisect_search P t s = (r, s')"
  shows "kernelConfig s' = kernelConfig s1"
  using assms unfolding bisect_search_def Let_def
  by (auto split: prod.splits sum.splits option.splits if_splits error.splits
        dest!: commitRange_kernelConfig run_bisect_kernelConfig on_world_kernelConfig
               detectNoopChange_kernelConfig)

lemma bisect_search_config:
  "bisect_search P t s = (Inr res, s') \<Longrightarrow> Result_Config res = kernelConfig s'"
  unfolding bisect_search_def Let_def
  by (auto split: prod.splits sum.splits option.splits if_splits error.splits
        dest!: commitRange_fatal_config run_bisect_kernelConfig on_world_kernelConfig
               detectNoopChange_kernelConfig)


lemma bisect_setup_full_config:
  "bisect_setup P s = (Inr u, s') \<Longrightarrow>
     Kernel_Config (Kernel (cfg s')) = Kernel_Config (Kernel (cfg s)) \<and>
     Kernel_BaselineConfig (Kernel (cfg s')) = Kernel_BaselineConfig (Kernel (cfg s))"
  unfolding bisect_setup_def Let_def
  by (auto split: prod.splits sum.splits option.splits
        dest!: sbw_fields[OF sbw_on_world] sbw_fields[OF identifyRewrittenCommit_sbw])

lemma predMinimize_candidate:
  "predMinimize P c (m, sm) = (pr, (m', sm')) \<Longrightarrow> kernelConfig sm' = c"
  unfolding predMinimize_def
  by (auto split: prod.splits sum.splits dest!: test_step_fields[OF test_test_step])

lemma runImpl_result_only:
  assumes "asBisecter repo0 = Some b"
    and "\<not> (asConfigMinimizer repo0 = None \<and> Kernel_BaselineConfig (Kernel cfg0) \<noteq> [])"
    and "on_world (HeadCommit repo0) (new_env P cfg0 repo0 b inst0 w) = (Inr h, s')"
    and "bisect P (s'\<lparr>head := Some h\<rparr>) = (r, s2)"
    and "fst (runImpl P cfg0 repo0 inst0 w) = Inr res"
  shows "r = Inr res"
  using runImpl_result[OF assms(1-4)] assms(5)
  by (auto split: sum.splits if_splits)

subsection \<open>Errors of the minimizer and of the bisecter\<close>



section \<open>The claims\<close>




text \<open>
  Claim C9. When the checkout of the branch succeeds and the repository says that the
  stored starting hash is contained in it, \<open>identifyRewrittenCommit\<close> returns that hash
  with no error, and neither the commit title nor the lookup by title has any part in it:
  the result is the same for every title \<open>t\<close> and every lookup \<open>g\<close> put in their place.
\<close>

theorem identifyRewrittenCommit_reachable:
  assumes "CheckoutBranch (repo s) (Kernel_Repo (Kernel (cfg s))) (Kernel_Branch (Kernel (cfg s)))
             (world s) = (Inr c, w1)"
    and "Contains (repo s) (Kernel_Commit (Kernel (cfg s))) w1 = (Inr True, w2)"
  shows "identifyRewrittenCommit s = ((Kernel_Commit (Kernel (cfg s)), None), s\<lparr>world := w2\<rparr>) \<and>
         identifyRewrittenCommit
           (s\<lparr>cfg := (cfg s)\<lparr>Kernel := (Kernel (cfg s))\<lparr>Kernel_CommitTitle := t\<rparr>\<rparr>,
              repo := (repo s)\<lparr>GetCommitByTitle := g\<rparr>\<rparr>) =
           ((Kernel_Commit (Kernel (cfg s)), None),
            s\<lparr>cfg := (cfg s)\<lparr>Kernel := (Kernel (cfg s))\<lparr>Kernel_CommitTitle := t\<rparr>\<rparr>,
              repo := (repo s)\<lparr>GetCommitByTitle := g\<rparr>, world := w2\<rparr>)"
  unfolding identifyRewrittenCommit_def on_world_def Let_def
  by (simp add: assms)

theorem identifyRewrittenCommit_reachable_witness:
  "fst (identifyRewrittenCommit s0) = (''start'', None) \<and>
   fst (identifyRewrittenCommit
          (s0\<lparr>cfg := (cfg s0)\<lparr>Kernel := (Kernel (cfg s0))\<lparr>Kernel_CommitTitle := []\<rparr>\<rparr>,
              repo := (repo s0)\<lparr>GetCommitByTitle := (\<lambda>t w. (Inr None, w))\<rparr>\<rparr>)) = (''start'', None)"
proof -
  have a1: "CheckoutBranch (repo s0) (Kernel_Repo (Kernel (cfg s0))) (Kernel_Branch (Kernel (cfg s0)))
             (world s0) = (Inr (toy_commit ''head''), (''head'', []))"
    by code_simp
  have a2: "Contains (repo s0) (Kernel_Commit (Kernel (cfg s0))) (''head'', []) = (Inr True, (''head'', []))"
    by code_simp
  have k: "Kernel_Commit (Kernel (cfg s0)) = ''start''" by code_simp
  show ?thesis
    using identifyRewrittenCommit_reachable[OF a1 a2, where t = "[]" and g = "\<lambda>t w. (Inr None, w)"]
    by (simp add: k)
qed

text \<open>
  Claim C10. \<open>Run\<close> returns the error of \<open>checkConfig\<close>, of \<open>vcs.NewRepo\<close> and of
  \<open>instance.NewEnv\<close> as it is, which is never an \<open>InfraError\<close>; the error of the first
  checkout of the branch it returns as an \<open>InfraError\<close> whose title is the text of that error.
\<close>

theorem Run_setup_errors:
  "(checkConfig P c w = Some e \<longrightarrow> Run P c w = (Inl e, w) \<and> \<not> is_InfraError e) \<and>
   (checkConfig P c w = None \<longrightarrow>
      (NewRepo P (TargetOS (Manager c)) (VMType (Manager c)) (KernelSrc (Manager c)) w = (Inl e1, w1) \<longrightarrow>
         Run P c w = (Inl (Ext e1), w1) \<and> \<not> is_InfraError (Ext e1)) \<and>
      (NewRepo P (TargetOS (Manager c)) (VMType (Manager c)) (KernelSrc (Manager c)) w = (Inr r, w1) \<longrightarrow>
         (NewEnv P ((Manager c)\<lparr>Cover := False\<rparr>) w1 = (Inl e2, w2) \<longrightarrow>
            Run P c w = (Inl (Ext e2), w2) \<and> \<not> is_InfraError (Ext e2)) \<and>
         (NewEnv P ((Manager c)\<lparr>Cover := False\<rparr>) w1 = (Inr i, w2) \<longrightarrow>
            CheckoutBranch r (Kernel_Repo (Kernel c)) (Kernel_Branch (Kernel c)) w2 = (Inl e3, w3) \<longrightarrow>
            Run P c w = (Inl (InfraError (ext_text e3)), w3) \<and>
            is_InfraError (InfraError (ext_text e3)))))"
proof -
  have "checkConfig P c w = Some e \<Longrightarrow> \<not> is_InfraError e"
    by (auto simp: checkConfig_def split: if_splits)
  then show ?thesis
    unfolding Run_def Let_def by simp
qed

theorem Run_setup_errors_witness:
  "fst (Run (P0\<lparr>IsExist := \<lambda>p w. False\<rparr>) (toy_cfg False [] ''start'') (''head'', [])) =
     Inl (Errorf ''bin dir bin does not exist'') \<and>
   fst (Run (P0\<lparr>NewRepo := \<lambda>os t src w. (Inl (OtherError ''no repo''), w)\<rparr>)
          (toy_cfg False [] ''start'') (''head'', [])) = Inl (Ext (OtherError ''no repo'')) \<and>
   fst (Run (P0\<lparr>NewEnv := \<lambda>m w. (Inl (OtherError ''no machines''), w)\<rparr>)
          (toy_cfg False [] ''start'') (''head'', [])) = Inl (Ext (OtherError ''no machines'')) \<and>
   fst (Run (P0\<lparr>NewRepo := \<lambda>os t src w.
               (Inr (R0\<lparr>CheckoutBranch := \<lambda>url b w. (Inl (OtherError ''no network''), w)\<rparr>), w)\<rparr>)
          (toy_cfg False [] ''start'') (''head'', [])) = Inl (InfraError ''no network'')"
proof -
  let ?c = "toy_cfg False [] ''start''"
  let ?w = "(''head'', []) :: toy_world"
  let ?P1 = "P0\<lparr>IsExist := \<lambda>p w. False\<rparr>"
  let ?P2 = "P0\<lparr>NewRepo := \<lambda>os t src w. (Inl (OtherError ''no repo''), w)\<rparr>"
  let ?P3 = "P0\<lparr>NewEnv := \<lambda>m w. (Inl (OtherError ''no machines''), w)\<rparr>"
  let ?R = "R0\<lparr>CheckoutBranch := \<lambda>url b w. (Inl (OtherError ''no network''), w)\<rparr>"
  let ?P4 = "P0\<lparr>NewRepo := \<lambda>os t src w. (Inr ?R, w)\<rparr>"
  have c1: "checkConfig ?P1 ?c ?w = Some (Errorf ''bin dir bin does not exist'')" by code_simp
  have c2: "checkConfig ?P2 ?c ?w = None" by code_simp
  have c3: "checkConfig ?P3 ?c ?w = None" by code_simp
  have c4: "checkConfig ?P4 ?c ?w = None" by code_simp
  have n2: "NewRepo ?P2 (TargetOS (Manager ?c)) (VMType (Manager ?c)) (KernelSrc (Manager ?c)) ?w
              = (Inl (OtherError ''no repo''), ?w)" by simp
  have n3: "NewRepo ?P3 (TargetOS (Manager ?c)) (VMType (Manager ?c)) (KernelSrc (Manager ?c)) ?w
              = (Inr R0, ?w)" by (simp add: P0_def toy_pkgs_def)
  have e3: "NewEnv ?P3 ((Manager ?c)\<lparr>Cover := False\<rparr>) ?w = (Inl (OtherError ''no machines''), ?w)"
    by simp
  have n4: "NewRepo ?P4 (TargetOS (Manager ?c)) (VMType (Manager ?c)) (KernelSrc (Manager ?c)) ?w
              = (Inr ?R, ?w)" by simp
  have e4: "NewEnv ?P4 ((Manager ?c)\<lparr>Cover := False\<rparr>) ?w = (Inr I0, ?w)"
    by (simp add: P0_def toy_pkgs_def)
  have k4: "CheckoutBranch ?R (Kernel_Repo (Kernel ?c)) (Kernel_Branch (Kernel ?c)) ?w
              = (Inl (OtherError ''no network''), ?w)" by simp
  have r1: "fst (Run ?P1 ?c ?w) = Inl (Errorf ''bin dir bin does not exist'')"
    using Run_setup_errors[of ?P1 ?c ?w "Errorf ''bin dir bin does not exist''"] c1 by simp
  have r2: "fst (Run ?P2 ?c ?w) = Inl (Ext (OtherError ''no repo''))"
    using Run_setup_errors[of ?P2 ?c ?w _ "OtherError ''no repo''" ?w] c2 n2 by simp
  have r3: "fst (Run ?P3 ?c ?w) = Inl (Ext (OtherError ''no machines''))"
    using Run_setup_errors[of ?P3 ?c ?w _ _ ?w R0 "OtherError ''no machines''" ?w] c3 n3 e3 by simp
  have r4: "fst (Run ?P4 ?c ?w) = Inl (InfraError ''no network'')"
    using Run_setup_errors[of ?P4 ?c ?w _ _ ?w ?R _ ?w I0 "OtherError ''no network''" ?w] c4 n4 e4 k4
    by simp
  from r1 r2 r3 r4 show ?thesis by simp
qed

text \<open>
  What \<open>validateCommitRange\<close> and \<open>commitRange\<close> do with a last result whose verdict is
  skip.
\<close>

lemma validateCommitRange_skip:
  assumes "results \<noteq> []" and "verdict (last results) = BisectSkip"
  shows "validateCommitRange s bad good results =
           (if Fix (cfg s)
            then Inr (Some \<lparr>Result_Commits = [], Result_Report = rep (last results),
                            Result_Commit = bad, Result_Config = kernelConfig s,
                            Result_NoopChange = False, Result_IsRelease = False\<rparr>)
            else Inl (Errorf ''oldest tested release had kernel build, boot or test errors'')) \<and>
         ((if Fix (cfg s') then commitRangeForFix P s' else commitRangeForCause P s') =
              (Inr (bad, good, results), s) \<longrightarrow>
            commitRange P s' =
              (if Fix (cfg s)
               then (Inr (bad, good, results,
                          Some \<lparr>Result_Commits = [], Result_Report = rep (last results),
                                Result_Commit = bad, Result_Config = kernelConfig s,
                                Result_NoopChange = False, Result_IsRelease = False\<rparr>), s)
               else (Inl (Errorf ''oldest tested release had kernel build, boot or test errors''), s)))"
proof -
  have l: "results ! (length results - 1) = last results"
    using assms(1) by (simp add: last_conv_nth)
  have n: "\<not> length results < 1" using assms(1) by (cases results) simp_all
  have v: "validateCommitRange s bad good results =
           (if Fix (cfg s)
            then Inr (Some \<lparr>Result_Commits = [], Result_Report = rep (last results),
                            Result_Commit = bad, Result_Config = kernelConfig s,
                            Result_NoopChange = False, Result_IsRelease = False\<rparr>)
            else Inl (Errorf ''oldest tested release had kernel build, boot or test errors''))"
    unfolding validateCommitRange_def Let_def l using n assms(2) by simp
  show ?thesis
    unfolding commitRange_def by (simp add: v)
qed

text \<open>
  Claim C7. Take a run in which the steps before the first test succeed, the test at the
  starting commit gives the verdict bad, the minimization (when a baseline is given)
  succeeds, and the range finder returns its results, the last of them with the verdict
  skip. In fix mode \<open>bisect\<close> and \<open>runImpl\<close> then return a result with no commits, \<open>Commit\<close> the
  bad endpoint (which is there) and the report of that last result; in cause mode they fail
  with the error that the oldest tested release had build, boot or test errors.
\<close>

theorem run_skip_terminus:
  assumes "bisect_setup P s = (Inr u, s1)"
    and "test P s1 = (Inr testRes, s2)"
    and "verdict testRes = BisectBad"
    and "(Kernel_BaselineConfig (Kernel (cfg s2)) = [] \<and> s3 = s2) \<or>
         (Kernel_BaselineConfig (Kernel (cfg s2)) \<noteq> [] \<and> (\<exists>x. minimizeConfig P s2 = (Inr x, s3)))"
    and "(if Fix (cfg s3) then commitRangeForFix P s3 else commitRangeForCause P s3) =
           (Inr (bad, good, results), s4)"
    and "results \<noteq> []"
    and "verdict (last results) = BisectSkip"
  shows "bisect P s =
           (if Fix (cfg s3)
            then (Inr \<lparr>Result_Commits = [], Result_Report = rep (last results),
                       Result_Commit = bad, Result_Config = kernelConfig s4,
                       Result_NoopChange = False, Result_IsRelease = False\<rparr>, s4)
            else (Inl (Errorf ''oldest tested release had kernel build, boot or test errors''), s4)) \<and>
         (Fix (cfg s3) \<longrightarrow> bad \<noteq> None) \<and>
         (asBisecter repo0 = Some b \<longrightarrow>
          \<not> (asConfigMinimizer repo0 = None \<and> Kernel_BaselineConfig (Kernel cfg0) \<noteq> []) \<longrightarrow>
          on_world (HeadCommit repo0) (new_env P cfg0 repo0 b inst0 w) = (Inr h, s') \<longrightarrow>
          s = s'\<lparr>head := Some h\<rparr> \<longrightarrow>
          fst (runImpl P cfg0 repo0 inst0 w) =
            (if Fix (cfg s3)
             then Inr \<lparr>Result_Commits = [], Result_Report = rep (last results),
                       Result_Commit = bad, Result_Config = kernelConfig s4,
                       Result_NoopChange = False, Result_IsRelease = False\<rparr>
             else Inl (Errorf ''oldest tested release had kernel build, boot or test errors'')))"
proof -
  let ?res = "\<lparr>Result_Commits = [], Result_Report = rep (last results),
               Result_Commit = bad, Result_Config = kernelConfig s4,
               Result_NoopChange = False, Result_IsRelease = False\<rparr>"
  let ?err = "Errorf ''oldest tested release had kernel build, boot or test errors''"
  have ts: "test_step s3 s4"
  proof (cases "Fix (cfg s3)")
    case True
    with assms(5) show ?thesis by (simp add: commitRangeForFix_test_step)
  next
    case False
    with assms(5) show ?thesis by (simp add: commitRangeForCause_test_step)
  qed
  have c: "cfg s4 = cfg s3" using test_step_fields[OF ts] by simp
  have cr: "commitRange P s3 =
      (if Fix (cfg s3) then (Inr (bad, good, results, Some ?res), s4) else (Inl ?err, s4))"
    using validateCommitRange_skip[OF assms(6,7), of s4 bad good s3 P, THEN conjunct2] assms(5) c
    by simp
  have bs: "bisect_search P testRes s2 = (if Fix (cfg s3) then (Inr ?res, s4) else (Inl ?err, s4))"
  proof (cases "Fix (cfg s3)")
    case True
    with cr have "commitRange P s3 = (Inr (bad, good, results, Some ?res), s4)" by simp
    from bisect_search_after_min(2)[OF assms(4) this] True show ?thesis by simp
  next
    case False
    with cr have "commitRange P s3 = (Inl ?err, s4)" by simp
    from bisect_search_after_min(1)[OF assms(4) this] False show ?thesis by simp
  qed
  have b: "bisect P s = (if Fix (cfg s3) then (Inr ?res, s4) else (Inl ?err, s4))"
    unfolding bisect_def by (simp add: assms(1,2,3) bs)
  have nn: "Fix (cfg s3) \<longrightarrow> bad \<noteq> None"
  proof
    assume "Fix (cfg s3)"
    with assms(5) have "commitRangeForFix P s3 = (Inr (bad, good, results), s4)" by simp
    from commitRangeForFix_bad[OF this] show "bad \<noteq> None" by (rule conjunct2)
  qed
  have run: "asBisecter repo0 = Some b \<longrightarrow>
          \<not> (asConfigMinimizer repo0 = None \<and> Kernel_BaselineConfig (Kernel cfg0) \<noteq> []) \<longrightarrow>
          on_world (HeadCommit repo0) (new_env P cfg0 repo0 b inst0 w) = (Inr h, s') \<longrightarrow>
          s = s'\<lparr>head := Some h\<rparr> \<longrightarrow>
          fst (runImpl P cfg0 repo0 inst0 w) = (if Fix (cfg s3) then Inr ?res else Inl ?err)"
  proof (intro impI)
    assume r: "asBisecter repo0 = Some b"
      "\<not> (asConfigMinimizer repo0 = None \<and> Kernel_BaselineConfig (Kernel cfg0) \<noteq> [])"
      "on_world (HeadCommit repo0) (new_env P cfg0 repo0 b inst0 w) = (Inr h, s')"
      "s = s'\<lparr>head := Some h\<rparr>"
    show "fst (runImpl P cfg0 repo0 inst0 w) = (if Fix (cfg s3) then Inr ?res else Inl ?err)"
    proof (cases "Fix (cfg s3)")
      case True
      with b r(4) have "bisect P (s'\<lparr>head := Some h\<rparr>) = (Inr ?res, s4)" by simp
      from runImpl_result[OF r(1,2,3) this] nn True show ?thesis by simp
    next
      case False
      with b r(4) have "bisect P (s'\<lparr>head := Some h\<rparr>) = (Inl ?err, s4)" by simp
      from runImpl_result[OF r(1,2,3) this] False show ?thesis by simp
    qed
  qed
  from b nn run show ?thesis by (intro conjI)
qed

theorem run_skip_terminus_witness:
  "fst (runImpl P0 (toy_cfg True [] ''start'') R0 I0 (''head'', [])) =
     Inr \<lparr>Result_Commits = [],
          Result_Report = Some (title_report ''failed testing reproducer on head''),
          Result_Commit = Some (toy_commit ''head''), Result_Config = ''full'',
          Result_NoopChange = False, Result_IsRelease = False\<rparr> \<and>
   fst (runImpl P0 (toy_cfg False [] ''start'') RS I0 (''head'', [])) =
     Inl (Errorf ''oldest tested release had kernel build, boot or test errors'')"
proof -
  let ?w = "(''head'', []) :: toy_world"
  let ?rb = "\<lparr>verdict = BisectBad, com = toy_commit ''start'',
             rep = Some \<lparr>Report_Title = ''BUG'', Report_Report = [], Report_Output = []\<rparr>,
             kernelSign = ''sig of start''\<rparr>"
  let ?r2 = "\<lparr>verdict = BisectBad, com = toy_commit ''v2'',
             rep = Some \<lparr>Report_Title = ''BUG'', Report_Report = [], Report_Output = []\<rparr>,
             kernelSign = ''sig of v2''\<rparr>"
  let ?rk = "\<lparr>verdict = BisectSkip, com = toy_commit ''head'',
             rep = Some (title_report ''failed testing reproducer on head''),
             kernelSign = ''sig of head''\<rparr>"
  text \<open>fix mode\<close>
  let ?cF = "toy_cfg True [] ''start''"
  let ?hF = "on_world (HeadCommit R0) (new_env P0 ?cF R0 B0 I0 ?w)"
  let ?sF = "(snd ?hF)\<lparr>head := Some (toy_commit ''head'')\<rparr>"
  let ?s1 = "snd (bisect_setup P0 ?sF)"
  let ?s2 = "snd (test P0 ?s1)"
  let ?s4 = "snd (commitRangeForFix P0 ?s2)"
  have "fst (bisect_setup P0 ?sF) = Inr ()" by code_simp
  then have f1: "bisect_setup P0 ?sF = (Inr (), ?s1)" by (rule pair_fst_snd)
  have "fst (test P0 ?s1) = Inr ?rb" by code_simp
  then have f2: "test P0 ?s1 = (Inr ?rb, ?s2)" by (rule pair_fst_snd)
  have f3: "verdict ?rb = BisectBad" by simp
  have "Kernel_BaselineConfig (Kernel (cfg ?s2)) = []" by code_simp
  then have f4: "(Kernel_BaselineConfig (Kernel (cfg ?s2)) = [] \<and> ?s2 = ?s2) \<or>
         (Kernel_BaselineConfig (Kernel (cfg ?s2)) \<noteq> [] \<and> (\<exists>x. minimizeConfig P0 ?s2 = (Inr x, ?s2)))"
    by simp
  have fx: "Fix (cfg ?s2)" by code_simp
  have "fst (commitRangeForFix P0 ?s2) = Inr (Some (toy_commit ''head''), None, [?rk])"
    by code_simp
  then have "commitRangeForFix P0 ?s2 = (Inr (Some (toy_commit ''head''), None, [?rk]), ?s4)"
    by (rule pair_fst_snd)
  with fx have f5: "(if Fix (cfg ?s2) then commitRangeForFix P0 ?s2 else commitRangeForCause P0 ?s2) =
           (Inr (Some (toy_commit ''head''), None, [?rk]), ?s4)"
    by simp
  have f6: "[?rk] \<noteq> []" "verdict (last [?rk]) = BisectSkip" by simp_all
  have "fst ?hF = Inr (toy_commit ''head'')" by code_simp
  then have f7: "?hF = (Inr (toy_commit ''head''), snd ?hF)" by (rule pair_fst_snd)
  have f8: "asBisecter R0 = Some B0"
    "\<not> (asConfigMinimizer R0 = None \<and> Kernel_BaselineConfig (Kernel ?cF) \<noteq> [])"
    by (simp_all add: R0_def toy_repo_def)
  have f9: "kernelConfig ?s4 = ''full''" by code_simp
  note thF = run_skip_terminus[OF f1 f2 f3 f4 f5 f6, THEN conjunct2, THEN conjunct2,
      THEN mp, OF f8(1), THEN mp, OF f8(2), THEN mp, OF f7, THEN mp, OF refl]
  have first: "fst (runImpl P0 ?cF R0 I0 ?w) =
     Inr \<lparr>Result_Commits = [],
          Result_Report = Some (title_report ''failed testing reproducer on head''),
          Result_Commit = Some (toy_commit ''head''), Result_Config = ''full'',
          Result_NoopChange = False, Result_IsRelease = False\<rparr>"
    using thF fx f9 by simp
  text \<open>cause mode\<close>
  let ?cC = "toy_cfg False [] ''start''"
  let ?hC = "on_world (HeadCommit RS) (new_env P0 ?cC RS BS I0 ?w)"
  let ?sC = "(snd ?hC)\<lparr>head := Some (toy_commit ''head'')\<rparr>"
  let ?t1 = "snd (bisect_setup P0 ?sC)"
  let ?t2 = "snd (test P0 ?t1)"
  let ?t4 = "snd (commitRangeForCause P0 ?t2)"
  have "fst (bisect_setup P0 ?sC) = Inr ()" by code_simp
  then have c1: "bisect_setup P0 ?sC = (Inr (), ?t1)" by (rule pair_fst_snd)
  have "fst (test P0 ?t1) = Inr ?rb" by code_simp
  then have c2: "test P0 ?t1 = (Inr ?rb, ?t2)" by (rule pair_fst_snd)
  have "Kernel_BaselineConfig (Kernel (cfg ?t2)) = []" by code_simp
  then have c4: "(Kernel_BaselineConfig (Kernel (cfg ?t2)) = [] \<and> ?t2 = ?t2) \<or>
         (Kernel_BaselineConfig (Kernel (cfg ?t2)) \<noteq> [] \<and> (\<exists>x. minimizeConfig P0 ?t2 = (Inr x, ?t2)))"
    by simp
  have cx: "\<not> Fix (cfg ?t2)" by code_simp
  have "fst (commitRangeForCause P0 ?t2) = Inr (Some (toy_commit ''v2''), None, [?r2, ?rk])"
    by code_simp
  then have "commitRangeForCause P0 ?t2 = (Inr (Some (toy_commit ''v2''), None, [?r2, ?rk]), ?t4)"
    by (rule pair_fst_snd)
  with cx have c5: "(if Fix (cfg ?t2) then commitRangeForFix P0 ?t2 else commitRangeForCause P0 ?t2) =
           (Inr (Some (toy_commit ''v2''), None, [?r2, ?rk]), ?t4)"
    by simp
  have c6: "[?r2, ?rk] \<noteq> []" "verdict (last [?r2, ?rk]) = BisectSkip" by simp_all
  have "fst ?hC = Inr (toy_commit ''head'')" by code_simp
  then have c7: "?hC = (Inr (toy_commit ''head''), snd ?hC)" by (rule pair_fst_snd)
  have c8: "asBisecter RS = Some BS"
    "\<not> (asConfigMinimizer RS = None \<and> Kernel_BaselineConfig (Kernel ?cC) \<noteq> [])"
    by (simp_all add: RS_def toy_repo_def)
  note thC = run_skip_terminus[OF c1 c2 f3 c4 c5 c6, THEN conjunct2, THEN conjunct2,
      THEN mp, OF c8(1), THEN mp, OF c8(2), THEN mp, OF c7, THEN mp, OF refl]
  have second: "fst (runImpl P0 ?cC RS I0 ?w) =
     Inl (Errorf ''oldest tested release had kernel build, boot or test errors'')"
    using thC cx by simp
  from first second show ?thesis by (rule conjI)
qed

text \<open>
  Claim C3. When the steps before the first test succeed and the test at the resolved
  starting commit returns a result, \<open>bisect\<close> goes on to the search exactly when the verdict
  is bad; with any other verdict it fails with the error that the crash was not reproduced
  on the original commit, and \<open>runImpl\<close> then returns that error and no result.
\<close>

theorem bisect_reproducibility_gate:
  assumes "bisect_setup P s = (Inr u, s1)" and "test P s1 = (Inr testRes, s2)"
  shows "bisect P s =
           (if verdict testRes = BisectBad then bisect_search P testRes s2
            else (Inl (Errorf ''the crash wasn't reproduced on the original commit''), s2)) \<and>
         (verdict testRes \<noteq> BisectBad \<longrightarrow> asBisecter repo0 = Some b \<longrightarrow>
          \<not> (asConfigMinimizer repo0 = None \<and> Kernel_BaselineConfig (Kernel cfg0) \<noteq> []) \<longrightarrow>
          on_world (HeadCommit repo0) (new_env P cfg0 repo0 b inst0 w) = (Inr h, s') \<longrightarrow>
          s = s'\<lparr>head := Some h\<rparr> \<longrightarrow>
          fst (runImpl P cfg0 repo0 inst0 w) =
            Inl (Errorf ''the crash wasn't reproduced on the original commit''))"
proof -
  have b: "bisect P s =
           (if verdict testRes = BisectBad then bisect_search P testRes s2
            else (Inl (Errorf ''the crash wasn't reproduced on the original commit''), s2))"
    unfolding bisect_def by (simp add: assms)
  show ?thesis
    unfolding runImpl_def Let_def using b by (auto split: prod.splits)
qed

theorem bisect_reproducibility_gate_witness:
  "fst (runImpl P0 (toy_cfg False [] ''v1'') R0 I0 (''head'', [])) =
     Inl (Errorf ''the crash wasn't reproduced on the original commit'') \<and>
   fst (bisect P0 (toy_env (toy_cfg False [] ''v1'') R0 B0 I0)) =
     Inl (Errorf ''the crash wasn't reproduced on the original commit'')"
proof -
  let ?c = "toy_cfg False [] ''v1''"
  let ?w = "(''head'', []) :: toy_world"
  let ?h = "on_world (HeadCommit R0) (new_env P0 ?c R0 B0 I0 ?w)"
  let ?s = "(snd ?h)\<lparr>head := Some (toy_commit ''head'')\<rparr>"
  let ?r = "\<lparr>verdict = BisectGood, com = toy_commit ''v1'', rep = None, kernelSign = ''sig of v1''\<rparr>"
  have "fst (bisect_setup P0 ?s) = Inr ()" by code_simp
  then have a1: "bisect_setup P0 ?s = (Inr (), snd (bisect_setup P0 ?s))" by (rule pair_fst_snd)
  have "fst (test P0 (snd (bisect_setup P0 ?s))) = Inr ?r" by code_simp
  then have a2: "test P0 (snd (bisect_setup P0 ?s)) = (Inr ?r, snd (test P0 (snd (bisect_setup P0 ?s))))"
    by (rule pair_fst_snd)
  have "fst ?h = Inr (toy_commit ''head'')" by code_simp
  then have a3: "?h = (Inr (toy_commit ''head''), snd ?h)" by (rule pair_fst_snd)
  have a4: "asBisecter R0 = Some B0" by (simp add: R0_def toy_repo_def)
  have a5: "\<not> (asConfigMinimizer R0 = None \<and> Kernel_BaselineConfig (Kernel ?c) \<noteq> [])"
    by (simp add: R0_def toy_repo_def)
  have first: "fst (runImpl P0 ?c R0 I0 ?w) =
      Inl (Errorf ''the crash wasn't reproduced on the original commit'')"
    using bisect_reproducibility_gate[OF a1 a2, of R0 B0 ?c I0 ?w "toy_commit ''head''" "snd ?h"]
      a3 a4 a5 by simp
  let ?t = "toy_env ?c R0 B0 I0"
  have "fst (bisect_setup P0 ?t) = Inr ()" by code_simp
  then have b1: "bisect_setup P0 ?t = (Inr (), snd (bisect_setup P0 ?t))" by (rule pair_fst_snd)
  have "fst (test P0 (snd (bisect_setup P0 ?t))) = Inr ?r" by code_simp
  then have b2: "test P0 (snd (bisect_setup P0 ?t)) = (Inr ?r, snd (test P0 (snd (bisect_setup P0 ?t))))"
    by (rule pair_fst_snd)
  have second: "fst (bisect P0 ?t) = Inl (Errorf ''the crash wasn't reproduced on the original commit'')"
    using bisect_reproducibility_gate[OF b1 b2] by simp
  from first second show ?thesis by (rule conjI)
qed

text \<open>
  Claim C6. \<open>MaxNumTests\<close> is 20. A test invocation that gets as far as the trials (the
  budget is not exhausted and the build succeeds) asks the test runner for 20 trials when
  the flaky flag is set or no earlier invocation of the session got as far (\<open>numTests\<close> is
  zero), and for 10 otherwise: its outcome is the tally of exactly that call, made with
  \<open>numTests\<close> counted up by one.
\<close>

theorem test_trial_count:
  assumes "\<not> timed_out P s"
    and "build P s = ((Some current, sign, None), s1)"
  shows "MaxNumTests = 20 \<and> MaxNumTests div 2 = 10 \<and>
         test P s = tally_trials current sign
           (on_world (Test (inst s) (if flaky s \<or> numTests s = 0 then 20 else 10)
               (Repro_Syz (Repro (cfg s))) (Repro_Opts (Repro (cfg s))) (Repro_C (Repro (cfg s))))
             (s1\<lparr>numTests := numTests s + 1\<rparr>))"
proof -
  have f: "cfg s1 = cfg s" "flaky s1 = flaky s" "numTests s1 = numTests s" "inst s1 = inst s"
    using sbw_fields[OF build_sbw[OF assms(2)]] by simp_all
  show ?thesis
    using test_eq_tally[OF assms] unfolding f by (simp add: MaxNumTests_def)
qed

theorem test_trial_count_witness:
  "test P0 s0 = tally_trials (toy_commit ''start'') ''sig of start''
     (on_world (Test (inst s0) 20 (Repro_Syz (Repro (cfg s0))) (Repro_Opts (Repro (cfg s0)))
        (Repro_C (Repro (cfg s0)))) ((snd (build P0 s0))\<lparr>numTests := 1\<rparr>)) \<and>
   test P0 (s0\<lparr>numTests := 1\<rparr>) = tally_trials (toy_commit ''start'') ''sig of start''
     (on_world (Test (inst s0) 10 (Repro_Syz (Repro (cfg s0))) (Repro_Opts (Repro (cfg s0)))
        (Repro_C (Repro (cfg s0)))) ((snd (build P0 (s0\<lparr>numTests := 1\<rparr>)))\<lparr>numTests := 2\<rparr>)) \<and>
   test P0 (s0\<lparr>numTests := 1, flaky := True\<rparr>) = tally_trials (toy_commit ''start'') ''sig of start''
     (on_world (Test (inst s0) 20 (Repro_Syz (Repro (cfg s0))) (Repro_Opts (Repro (cfg s0)))
        (Repro_C (Repro (cfg s0)))) ((snd (build P0 (s0\<lparr>numTests := 1, flaky := True\<rparr>)))\<lparr>numTests := 2\<rparr>))"
proof -
  let ?b = "(Some (toy_commit ''start''), ''sig of start'', None)"
  have z: "numTests s0 = 0" "\<not> flaky s0" by code_simp+
  have a1: "\<not> timed_out P0 s0" by code_simp
  have "fst (build P0 s0) = ?b" by code_simp
  then have a2: "build P0 s0 = (?b, snd (build P0 s0))" by (rule pair_fst_snd)
  let ?s = "s0\<lparr>numTests := 1\<rparr>"
  have b1: "\<not> timed_out P0 ?s" by code_simp
  have "fst (build P0 ?s) = ?b" by code_simp
  then have b2: "build P0 ?s = (?b, snd (build P0 ?s))" by (rule pair_fst_snd)
  let ?t = "s0\<lparr>numTests := 1, flaky := True\<rparr>"
  have c1: "\<not> timed_out P0 ?t" by code_simp
  have "fst (build P0 ?t) = ?b" by code_simp
  then have c2: "build P0 ?t = (?b, snd (build P0 ?t))" by (rule pair_fst_snd)
  have e1: "(if flaky s0 \<or> numTests s0 = 0 then 20 else 10::nat) = 20" "numTests s0 + 1 = 1"
    using z by simp_all
  have e2: "inst ?s = inst s0" "cfg ?s = cfg s0"
    "(if flaky ?s \<or> numTests ?s = 0 then 20 else 10::nat) = 10" "numTests ?s + 1 = 2"
    using z by simp_all
  have e3: "inst ?t = inst s0" "cfg ?t = cfg s0"
    "(if flaky ?t \<or> numTests ?t = 0 then 20 else 10::nat) = 20" "numTests ?t + 1 = 2"
    by simp_all
  note w1 = test_trial_count[OF a1 a2, THEN conjunct2, THEN conjunct2, unfolded e1]
  note w2 = test_trial_count[OF b1 b2, THEN conjunct2, THEN conjunct2, unfolded e2]
  note w3 = test_trial_count[OF c1 c2, THEN conjunct2, THEN conjunct2, unfolded e3]
  from w1 w2 w3 show ?thesis by (intro conjI)
qed

text \<open>
  Claim C8, as the code has it. For a test invocation that gets as far as the tally, with
  no more than half of its trials infra failures: if a trial crashed the verdict is bad and
  the report kept is that of a crash among the trials (the last one). The flaky flag is set
  after the invocation exactly when it was set before, or a trial crashed and the crashes
  are fewer than the clean successes. No test invocation and no run of \<open>bisect\<close> clears a
  flag that is set.
\<close>

theorem test_crash_verdict_and_flaky:
  assumes "\<not> timed_out P s"
    and "build P s = ((Some current, sign, None), s1)"
    and "on_world (Test (inst s1) (if flaky s1 \<or> numTests s1 = 0 then 20 else 10)
            (Repro_Syz (Repro (cfg s1))) (Repro_Opts (Repro (cfg s1))) (Repro_C (Repro (cfg s1))))
          (s1\<lparr>numTests := numTests s1 + 1\<rparr>) = (Inr results, s3)"
    and "2 * infra_count results \<le> length results"
  shows "((\<exists>t\<in>set results. \<exists>x. Error t = Some (CrashError x)) \<longrightarrow>
            (\<exists>r x. fst (test P s) = Inr r \<and> verdict r = BisectBad \<and> rep r = Some x \<and>
                   x = last (crash_reports results) \<and>
                   (\<exists>t\<in>set results. Error t = Some (CrashError x)))) \<and>
         (flaky (snd (test P s)) \<longleftrightarrow>
            flaky s \<or> (crash_count results \<noteq> 0 \<and> crash_count results < ok_count results)) \<and>
         (flaky s' \<longrightarrow> flaky (snd (test P s')) \<and> flaky (snd (bisect P s')))"
proof -
  have half: "\<not> length results div 2 < infra_count results"
    using assms(4) by arith
  have f1: "flaky s1 = flaky s"
    using sbw_fields[OF build_sbw[OF assms(2)]] by simp
  have "flaky s3 = flaky (s1\<lparr>numTests := numTests s1 + 1\<rparr>)"
    using sbw_fields[OF sbw_on_world[OF assms(3)]] by simp
  then have f3: "flaky s3 = flaky s" using f1 by simp
  note t = test_tally[OF assms(1,2,3)]
  have crash: "(\<exists>t\<in>set results. \<exists>x. Error t = Some (CrashError x)) \<longrightarrow>
            (\<exists>r x. fst (test P s) = Inr r \<and> verdict r = BisectBad \<and> rep r = Some x \<and>
                   x = last (crash_reports results) \<and>
                   (\<exists>t\<in>set results. Error t = Some (CrashError x)))"
  proof
    assume c: "\<exists>t\<in>set results. \<exists>x. Error t = Some (CrashError x)"
    then have n: "crash_count results \<noteq> 0" using crash_count_pos by blast
    then have ne: "crash_reports results \<noteq> []" by (simp add: crash_count_reports)
    then have "last (crash_reports results) \<in> set (crash_reports results)" by simp
    then have m: "\<exists>t\<in>set results. Error t = Some (CrashError (last (crash_reports results)))"
      by (simp add: crash_reports_set)
    have "fst (test P s) = Inr \<lparr>verdict = BisectBad, com = current,
             rep = last_crash_report results, kernelSign = sign\<rparr>"
      unfolding t using half n by simp
    then show "\<exists>r x. fst (test P s) = Inr r \<and> verdict r = BisectBad \<and> rep r = Some x \<and>
                   x = last (crash_reports results) \<and>
                   (\<exists>t\<in>set results. Error t = Some (CrashError x))"
      using ne m by (simp add: last_crash_report_def)
  qed
  have fl: "flaky (snd (test P s)) \<longleftrightarrow>
            flaky s \<or> (crash_count results \<noteq> 0 \<and> crash_count results < ok_count results)"
    unfolding t using half f3 by auto
  have mono: "flaky s' \<longrightarrow> flaky (snd (test P s')) \<and> flaky (snd (bisect P s'))"
    using test_flaky_mono[of P s' "fst (test P s')" "snd (test P s')"]
          bisect_flaky[of P s' "fst (bisect P s')" "snd (bisect P s')"]
    by (simp add: flaky_mono_def)
  from crash fl mono show ?thesis by blast
qed

theorem test_crash_verdict_and_flaky_witness:
  "(\<exists>r. fst (test P0 s0) = Inr r \<and> verdict r = BisectBad \<and>
        rep r = Some \<lparr>Report_Title = ''BUG'', Report_Report = [], Report_Output = []\<rparr>) \<and>
   flaky (snd (test P0 s0)) \<and>
   flaky (snd (bisect P0 (s0\<lparr>flaky := True\<rparr>)))"
proof -
  have b1: "\<not> timed_out P0 s0" by code_simp
  have "fst (build P0 s0) = (Some (toy_commit ''start''), ''sig of start'', None)" by code_simp
  then have b2: "build P0 s0 = ((Some (toy_commit ''start''), ''sig of start'', None), snd (build P0 s0))"
    by (rule pair_fst_snd)
  let ?u1 = "snd (build P0 s0)"
  let ?u = "on_world (Test (inst ?u1) (if flaky ?u1 \<or> numTests ?u1 = 0 then 20 else 10)
            (Repro_Syz (Repro (cfg ?u1))) (Repro_Opts (Repro (cfg ?u1))) (Repro_C (Repro (cfg ?u1))))
          (?u1\<lparr>numTests := numTests ?u1 + 1\<rparr>)"
  let ?rs = "replicate 3 (crash_trial ''BUG'') @ replicate 17 ok_trial"
  have "fst ?u = Inr ?rs" by code_simp
  then have b3: "?u = (Inr ?rs, snd ?u)" by (rule pair_fst_snd)
  have b4: "2 * infra_count ?rs \<le> length ?rs" by code_simp
  have d: "\<exists>t\<in>set ?rs. \<exists>x. Error t = Some (CrashError x)"
    by (simp add: crash_trial_def)
  have e: "last (crash_reports ?rs) = \<lparr>Report_Title = ''BUG'', Report_Report = [], Report_Output = []\<rparr>"
    "crash_count ?rs \<noteq> 0" "crash_count ?rs < ok_count ?rs"
    by code_simp+
  have f: "flaky (s0\<lparr>flaky := True\<rparr>)" by simp
  note th = test_crash_verdict_and_flaky[OF b1 b2 b3 b4, of "s0\<lparr>flaky := True\<rparr>"]
  from th d e(1) have first: "\<exists>r. fst (test P0 s0) = Inr r \<and> verdict r = BisectBad \<and>
        rep r = Some \<lparr>Report_Title = ''BUG'', Report_Report = [], Report_Output = []\<rparr>"
    by auto
  from th e(2,3) have second: "flaky (snd (test P0 s0))" by blast
  from th f have third: "flaky (snd (bisect P0 (s0\<lparr>flaky := True\<rparr>)))" by blast
  from first second third show ?thesis by blast
qed

text \<open>
  Claim C8 as stated fails: twenty clean successes and no crash have the bad count (zero)
  below the good count, and the flag stays clear.
\<close>

theorem test_no_crash_not_flaky:
  "fst (test P0 (s0\<lparr>world := (''v1'', [])\<rparr>)) =
     Inr \<lparr>verdict = BisectGood, com = toy_commit ''v1'', rep = None, kernelSign = ''sig of v1''\<rparr> \<and>
   processResults (toy_trials 20 (''v1'', ''full'')) = (0, 20, 0, None) \<and>
   \<not> flaky (s0\<lparr>world := (''v1'', [])\<rparr>) \<and>
   \<not> flaky (snd (test P0 (s0\<lparr>world := (''v1'', [])\<rparr>)))"
  by code_simp

text \<open>
  Claim C1, as the code has it. The predicate handed to \<open>Bisect\<close> swaps good and bad, in
  fix mode only, in the test result it has just got, then stores that result under the hash
  of its commit and returns its verdict: the stored verdict and the returned verdict are the
  same swapped one, the other fields are stored as \<open>test\<close> gave them, and skip is never
  changed. The result that the range finder of fix mode keeps is the one \<open>test\<close> returned,
  not swapped.
\<close>

theorem bisect_pred_polarity:
  assumes "test P s = (Inr r, s1)"
  shows "bisect_pred P u (results, s) =
           (Inr (if Fix (cfg s) then flip_verdict (verdict r) else verdict r),
            (results(Hash (com r) \<mapsto>
               r\<lparr>verdict := (if Fix (cfg s) then flip_verdict (verdict r) else verdict r)\<rparr>), s1)) \<and>
         flip_verdict BisectSkip = BisectSkip \<and>
         (commitRangeForFix P s' = (Inr (bad, good, rs), s2) \<longrightarrow>
            (\<exists>h c sa x. head s' = Some h \<and>
               on_world (SwitchCommit (repo s') (Hash h)) s' = (Inr c, sa) \<and>
               test P sa = (Inr x, s2) \<and> rs = [x]))"
proof -
  have c: "cfg s1 = cfg s"
    using test_step_fields[OF test_test_step[OF assms]] by simp
  have p: "bisect_pred P u (results, s) =
           (Inr (if Fix (cfg s) then flip_verdict (verdict r) else verdict r),
            (results(Hash (com r) \<mapsto>
               r\<lparr>verdict := (if Fix (cfg s) then flip_verdict (verdict r) else verdict r)\<rparr>), s1))"
  proof -
    have same: "\<And>v. verdict r = v \<Longrightarrow> r\<lparr>verdict := v\<rparr> = r" by auto
    show ?thesis
      unfolding bisect_pred_def Let_def
      by (cases "verdict r") (simp_all add: assms c same)
  qed
  have f: "commitRangeForFix P s' = (Inr (bad, good, rs), s2) \<longrightarrow>
            (\<exists>h c sa x. head s' = Some h \<and>
               on_world (SwitchCommit (repo s') (Hash h)) s' = (Inr c, sa) \<and>
               test P sa = (Inr x, s2) \<and> rs = [x])"
    unfolding commitRangeForFix_def
    by (auto split: option.splits prod.splits sum.splits if_splits)
  from p f show ?thesis by simp
qed

theorem bisect_pred_polarity_witness:
  "fst (bisect_pred P0 () (Map.empty, (toy_env (toy_cfg True [] ''start'') R0 B0 I0)\<lparr>world := (''v1'', [])\<rparr>))
     = Inr BisectBad \<and>
   fst (bisect_pred P0 () (Map.empty, s0\<lparr>world := (''v1'', [])\<rparr>)) = Inr BisectGood \<and>
   (\<exists>sa. fst (test P0 sa) =
          Inr \<lparr>verdict = BisectSkip, com = toy_commit ''head'',
               rep = Some (title_report ''failed testing reproducer on head''),
               kernelSign = ''sig of head''\<rparr>)"
proof -
  let ?g = "\<lparr>verdict = BisectGood, com = toy_commit ''v1'', rep = None, kernelSign = ''sig of v1''\<rparr>"
  let ?k = "\<lparr>verdict = BisectSkip, com = toy_commit ''head'',
            rep = Some (title_report ''failed testing reproducer on head''),
            kernelSign = ''sig of head''\<rparr>"
  let ?e = "toy_env (toy_cfg True [] ''start'') R0 B0 I0"
  let ?sF = "?e\<lparr>world := (''v1'', [])\<rparr>"
  let ?sC = "s0\<lparr>world := (''v1'', [])\<rparr>"
  have "fst (test P0 ?sF) = Inr ?g" by code_simp
  then have a1: "test P0 ?sF = (Inr ?g, snd (test P0 ?sF))" by (rule pair_fst_snd)
  have "fst (test P0 ?sC) = Inr ?g" by code_simp
  then have a2: "test P0 ?sC = (Inr ?g, snd (test P0 ?sC))" by (rule pair_fst_snd)
  have "fst (commitRangeForFix P0 ?e) = Inr (Some (toy_commit ''head''), None, [?k])" by code_simp
  then have a3: "commitRangeForFix P0 ?e =
      (Inr (Some (toy_commit ''head''), None, [?k]), snd (commitRangeForFix P0 ?e))"
    by (rule pair_fst_snd)
  have fx: "Fix (cfg ?sF)" "\<not> Fix (cfg ?sC)" by code_simp+
  have first: "fst (bisect_pred P0 () (Map.empty, ?sF)) = Inr BisectBad"
    using bisect_pred_polarity[OF a1, of "()" Map.empty] fx(1) by simp
  have second: "fst (bisect_pred P0 () (Map.empty, ?sC)) = Inr BisectGood"
    using bisect_pred_polarity[OF a2, of "()" Map.empty] fx(2) by simp
  note ex = bisect_pred_polarity[OF a1, THEN conjunct2, THEN conjunct2, THEN mp, OF a3]
  from ex obtain h where "\<exists>c sa x. head ?e = Some h \<and>
      on_world (SwitchCommit (repo ?e) (Hash h)) ?e = (Inr c, sa) \<and>
      test P0 sa = (Inr x, snd (commitRangeForFix P0 ?e)) \<and> [?k] = [x]" ..
  then obtain c where "\<exists>sa x. head ?e = Some h \<and>
      on_world (SwitchCommit (repo ?e) (Hash h)) ?e = (Inr c, sa) \<and>
      test P0 sa = (Inr x, snd (commitRangeForFix P0 ?e)) \<and> [?k] = [x]" ..
  then obtain sa where "\<exists>x. head ?e = Some h \<and>
      on_world (SwitchCommit (repo ?e) (Hash h)) ?e = (Inr c, sa) \<and>
      test P0 sa = (Inr x, snd (commitRangeForFix P0 ?e)) \<and> [?k] = [x]" ..
  then obtain x where "head ?e = Some h \<and>
      on_world (SwitchCommit (repo ?e) (Hash h)) ?e = (Inr c, sa) \<and>
      test P0 sa = (Inr x, snd (commitRangeForFix P0 ?e)) \<and> [?k] = [x]" ..
  then have t: "test P0 sa = (Inr x, snd (commitRangeForFix P0 ?e))" and x: "[?k] = [x]"
    by (rule conjunct2[THEN conjunct2, THEN conjunct1], rule conjunct2[THEN conjunct2, THEN conjunct2])
  from x have xk: "?k = x" by (rule list.inject[THEN iffD1, THEN conjunct1])
  have "fst (test P0 sa) = Inr x" by (subst t) (rule fst_conv)
  then have "fst (test P0 sa) = Inr ?k" by (simp only: xk)
  then have third: "\<exists>sa. fst (test P0 sa) = Inr ?k" by (rule exI[where x = sa])
  from first second third show ?thesis by (intro conjI)
qed

text \<open>
  Claim C1 as stated fails: in fix mode a revision whose test gives the verdict good is
  stored by the predicate with the verdict bad.
\<close>

theorem bisect_pred_stores_flipped:
  "Fix (cfg ((toy_env (toy_cfg True [] ''start'') R0 B0 I0)\<lparr>world := (''v1'', [])\<rparr>)) \<and>
   fst (test P0 ((toy_env (toy_cfg True [] ''start'') R0 B0 I0)\<lparr>world := (''v1'', [])\<rparr>)) =
     Inr \<lparr>verdict = BisectGood, com = toy_commit ''v1'', rep = None, kernelSign = ''sig of v1''\<rparr> \<and>
   fst (snd (bisect_pred P0 () (Map.empty,
          (toy_env (toy_cfg True [] ''start'') R0 B0 I0)\<lparr>world := (''v1'', [])\<rparr>))) ''v1'' =
     Some \<lparr>verdict = BisectBad, com = toy_commit ''v1'', rep = None, kernelSign = ''sig of v1''\<rparr>"
  by code_simp

text \<open>
  The loop over the release tags tests a prefix of the tags in their order and nothing else;
  the results it returns are those of that prefix.
\<close>

lemma commitRangeForCause_loop_trace:
  assumes "commitRangeForCause_loop P tags lb rs s = (Inr (bad, good, rs'), s')"
  shows "\<exists>n trace. n \<le> length tags \<and> length trace = n \<and>
           test_tags P (take n tags) s = (Inr trace, s') \<and>
           rs' = rs @ map snd trace \<and> bad = last_bad lb trace \<and>
           (\<forall>cr\<in>set (butlast trace). verdict (snd cr) \<noteq> BisectGood) \<and>
           (case good of
              None \<Rightarrow> n = length tags \<and> (\<forall>cr\<in>set trace. verdict (snd cr) \<noteq> BisectGood)
            | Some g \<Rightarrow> trace \<noteq> [] \<and> g = fst (last trace) \<and>
                        verdict (snd (last trace)) = BisectGood)"
  using assms
proof (induction tags arbitrary: lb rs s)
  case Nil
  show ?case
    apply (rule exI[of _ 0], rule exI[of _ "[]"])
    using Nil by (simp add: last_bad_def)
next
  case (Cons tag tags)
  from Cons.prems obtain c s1 where sw: "on_world (SwitchCommit (repo s) tag) s = (Inr c, s1)"
    by (auto split: prod.splits sum.splits)
  from Cons.prems sw obtain res s2 where t: "test P s1 = (Inr res, s2)"
    by (auto split: prod.splits sum.splits)
  show ?case
  proof (cases "verdict res = BisectGood")
    case True
    with Cons.prems sw t have e: "bad = lb" "good = Some c" "rs' = rs @ [res]" "s' = s2"
      by simp_all
    have tt: "test_tags P (take 1 (tag # tags)) s = (Inr [(c, res)], s2)"
      by (simp add: sw t)
    show ?thesis
      apply (rule exI[of _ 1], rule exI[of _ "[(c, res)]"])
      using True e tt by (simp add: last_bad_def)
  next
    case False
    with Cons.prems sw t have
      "commitRangeForCause_loop P tags (if verdict res = BisectBad then Some c else lb)
         (rs @ [res]) s2 = (Inr (bad, good, rs'), s')"
      by simp
    from Cons.IH[OF this] obtain n trace where
      ih: "n \<le> length tags" "length trace = n"
          "test_tags P (take n tags) s2 = (Inr trace, s')"
          "rs' = (rs @ [res]) @ map snd trace"
          "bad = last_bad (if verdict res = BisectBad then Some c else lb) trace"
          "\<forall>cr\<in>set (butlast trace). verdict (snd cr) \<noteq> BisectGood"
          "case good of
              None \<Rightarrow> n = length tags \<and> (\<forall>cr\<in>set trace. verdict (snd cr) \<noteq> BisectGood)
            | Some g \<Rightarrow> trace \<noteq> [] \<and> g = fst (last trace) \<and>
                        verdict (snd (last trace)) = BisectGood"
      by blast
    show ?thesis
      apply (rule exI[of _ "Suc n"], rule exI[of _ "(c, res) # trace"])
      using ih False by (auto simp: sw t last_bad_Cons split: option.splits)
  qed
qed

lemma commitRangeForCause_range_only:
  assumes "on_world (PreviousReleaseTags (bisecter s) (Kernel_Commit (Kernel (cfg s)))
                      (CompilerType (cfg s))) s = (Inr tags, s1)"
    and "commitRangeForCause P s = (Inr (bad, good, results), s')"
  shows "\<exists>n trace. 0 < n \<and> n \<le> length tags \<and> length trace = n \<and>
           test_tags P (take n tags) s1 = (Inr trace, s') \<and>
           results = map snd trace \<and> bad = last_bad (commit s) trace \<and>
           (\<forall>cr\<in>set (butlast trace). verdict (snd cr) \<noteq> BisectGood) \<and>
           (case good of
              None \<Rightarrow> n = length tags \<and> verdict (snd (last trace)) \<noteq> BisectGood
            | Some g \<Rightarrow> g = fst (last trace) \<and> verdict (snd (last trace)) = BisectGood)"
proof -
  from assms have ne: "tags \<noteq> []"
    and loop: "commitRangeForCause_loop P tags (commit s1) [] s1 = (Inr (bad, good, results), s')"
    unfolding commitRangeForCause_def by (auto split: if_splits)
  have c: "commit s1 = commit s"
    using sbw_fields[OF sbw_on_world[OF assms(1)]] by simp
  from commitRangeForCause_loop_trace[OF loop] obtain n trace where
    tr: "n \<le> length tags" "length trace = n"
        "test_tags P (take n tags) s1 = (Inr trace, s')"
        "results = [] @ map snd trace"
        "bad = last_bad (commit s1) trace"
        "\<forall>cr\<in>set (butlast trace). verdict (snd cr) \<noteq> BisectGood"
        "case good of
            None \<Rightarrow> n = length tags \<and> (\<forall>cr\<in>set trace. verdict (snd cr) \<noteq> BisectGood)
          | Some g \<Rightarrow> trace \<noteq> [] \<and> g = fst (last trace) \<and>
                      verdict (snd (last trace)) = BisectGood"
    by blast
  have pos: "0 < n"
  proof (rule ccontr)
    assume "\<not> 0 < n"
    then have "trace = []" using tr(2) by simp
    with tr(2,7) ne show False by (cases good) auto
  qed
  then have tne: "trace \<noteq> []" using tr(2) by auto
  show ?thesis
    apply (rule exI[of _ n], rule exI[of _ trace])
    using pos tne tr c by (auto split: option.splits)
qed

text \<open>
  Claim C4, as the code has it. In cause mode, once the list of previous release tags has
  been fetched, the range finder checks out and tests the tags in their order.
  \<^item> When the tags before some tag were tested with no verdict good and that tag's verdict is
    good, it stops there: no later tag is tested, the good endpoint is that tag's commit, the
    bad endpoint is the commit of the last tag tested with the verdict bad, and the starting
    commit if there is none (a skip changes nothing), and the results are those of the tags
    tested, in order.
  \<^item> When the list is not empty and all the tags were tested with no verdict good, it returns
    the same bad endpoint with an empty good endpoint.
  \<^item> Whenever it returns a range, one of the two has happened: exactly the first \<open>n > 0\<close> tags
    were tested, none but the last of them with the verdict good.
  \<^item> When the list is empty it returns no range but the error that there are no release tags
    before the commit.
\<close>

theorem commitRangeForCause_range:
  assumes "on_world (PreviousReleaseTags (bisecter s) (Kernel_Commit (Kernel (cfg s)))
                      (CompilerType (cfg s))) s = (Inr tags, s1)"
  shows "(tags = pre @ tag # post \<longrightarrow> test_tags P pre s1 = (Inr trace, s2) \<longrightarrow>
          (\<forall>cr\<in>set trace. verdict (snd cr) \<noteq> BisectGood) \<longrightarrow>
          on_world (SwitchCommit (repo s2) tag) s2 = (Inr c, s3) \<longrightarrow>
          test P s3 = (Inr res, s4) \<longrightarrow> verdict res = BisectGood \<longrightarrow>
            commitRangeForCause P s =
              (Inr (last_bad (commit s) trace, Some c, map snd trace @ [res]), s4)) \<and>
         (tags \<noteq> [] \<longrightarrow> test_tags P tags s1 = (Inr trace, s2) \<longrightarrow>
          (\<forall>cr\<in>set trace. verdict (snd cr) \<noteq> BisectGood) \<longrightarrow>
            commitRangeForCause P s = (Inr (last_bad (commit s) trace, None, map snd trace), s2)) \<and>
         (commitRangeForCause P s = (Inr (bad, good, results), s') \<longrightarrow>
            (\<exists>n trace. 0 < n \<and> n \<le> length tags \<and> length trace = n \<and>
               test_tags P (take n tags) s1 = (Inr trace, s') \<and>
               results = map snd trace \<and> bad = last_bad (commit s) trace \<and>
               (\<forall>cr\<in>set (butlast trace). verdict (snd cr) \<noteq> BisectGood) \<and>
               (case good of
                  None \<Rightarrow> n = length tags \<and> verdict (snd (last trace)) \<noteq> BisectGood
                | Some g \<Rightarrow> g = fst (last trace) \<and> verdict (snd (last trace)) = BisectGood))) \<and>
         (tags = [] \<longrightarrow>
            commitRangeForCause P s = (Inl (Errorf ''no release tags before this commit''), s1))"
proof -
  have c: "commit s1 = commit s"
    using sbw_fields[OF sbw_on_world[OF assms(1)]] by simp
  have run: "tags \<noteq> [] \<Longrightarrow>
      commitRangeForCause P s = commitRangeForCause_loop P tags (commit s) [] s1"
    unfolding commitRangeForCause_def by (simp add: assms c)
  have stop: "commitRangeForCause P s =
              (Inr (last_bad (commit s) trace, Some c, map snd trace @ [res]), s4)"
    if tg: "tags = pre @ tag # post" and tt: "test_tags P pre s1 = (Inr trace, s2)"
      and ng: "\<forall>cr\<in>set trace. verdict (snd cr) \<noteq> BisectGood"
      and sw: "on_world (SwitchCommit (repo s2) tag) s2 = (Inr c, s3)"
      and t: "test P s3 = (Inr res, s4)" and g: "verdict res = BisectGood"
  proof -
    have "commitRangeForCause P s = commitRangeForCause_loop P (pre @ tag # post) (commit s) [] s1"
      using run tg by simp
    also have "\<dots> = commitRangeForCause_loop P (tag # post) (last_bad (commit s) trace)
                      ([] @ map snd trace) s2"
      by (rule commitRangeForCause_loop_prefix[OF tt ng])
    also have "\<dots> = (Inr (last_bad (commit s) trace, Some c, map snd trace @ [res]), s4)"
      by (simp add: sw t g)
    finally show ?thesis .
  qed
  have all: "commitRangeForCause P s = (Inr (last_bad (commit s) trace, None, map snd trace), s2)"
    if ne: "tags \<noteq> []" and tt: "test_tags P tags s1 = (Inr trace, s2)"
      and ng: "\<forall>cr\<in>set trace. verdict (snd cr) \<noteq> BisectGood"
  proof -
    have "commitRangeForCause P s = commitRangeForCause_loop P (tags @ []) (commit s) [] s1"
      using run ne by simp
    also have "\<dots> = commitRangeForCause_loop P [] (last_bad (commit s) trace)
                      ([] @ map snd trace) s2"
      by (rule commitRangeForCause_loop_prefix[OF tt ng])
    also have "\<dots> = (Inr (last_bad (commit s) trace, None, map snd trace), s2)"
      by simp
    finally show ?thesis .
  qed
  have only: "commitRangeForCause P s = (Inr (bad, good, results), s') \<longrightarrow>
            (\<exists>n trace. 0 < n \<and> n \<le> length tags \<and> length trace = n \<and>
               test_tags P (take n tags) s1 = (Inr trace, s') \<and>
               results = map snd trace \<and> bad = last_bad (commit s) trace \<and>
               (\<forall>cr\<in>set (butlast trace). verdict (snd cr) \<noteq> BisectGood) \<and>
               (case good of
                  None \<Rightarrow> n = length tags \<and> verdict (snd (last trace)) \<noteq> BisectGood
                | Some g \<Rightarrow> g = fst (last trace) \<and> verdict (snd (last trace)) = BisectGood))"
    by (rule impI) (rule commitRangeForCause_range_only[OF assms])
  have A: "tags = pre @ tag # post \<longrightarrow> test_tags P pre s1 = (Inr trace, s2) \<longrightarrow>
          (\<forall>cr\<in>set trace. verdict (snd cr) \<noteq> BisectGood) \<longrightarrow>
          on_world (SwitchCommit (repo s2) tag) s2 = (Inr c, s3) \<longrightarrow>
          test P s3 = (Inr res, s4) \<longrightarrow> verdict res = BisectGood \<longrightarrow>
            commitRangeForCause P s =
              (Inr (last_bad (commit s) trace, Some c, map snd trace @ [res]), s4)"
    by (intro impI) (rule stop)
  have B: "tags \<noteq> [] \<longrightarrow> test_tags P tags s1 = (Inr trace, s2) \<longrightarrow>
          (\<forall>cr\<in>set trace. verdict (snd cr) \<noteq> BisectGood) \<longrightarrow>
            commitRangeForCause P s = (Inr (last_bad (commit s) trace, None, map snd trace), s2)"
    by (intro impI) (rule all)
  have empty: "tags = [] \<longrightarrow>
            commitRangeForCause P s = (Inl (Errorf ''no release tags before this commit''), s1)"
    unfolding commitRangeForCause_def by (simp add: assms)
  show ?thesis by (rule conjI[OF A conjI[OF B conjI[OF only empty]]])
qed

theorem commitRangeForCause_range_witness:
  "fst (commitRangeForCause P0 s0) =
     Inr (Some (toy_commit ''v2''), Some (toy_commit ''v1''),
       [\<lparr>verdict = BisectBad, com = toy_commit ''v2'',
         rep = Some \<lparr>Report_Title = ''BUG'', Report_Report = [], Report_Output = []\<rparr>,
         kernelSign = ''sig of v2''\<rparr>,
        \<lparr>verdict = BisectGood, com = toy_commit ''v1'', rep = None,
         kernelSign = ''sig of v1''\<rparr>]) \<and>
   fst (commitRangeForCause P0 (s0\<lparr>bisecter := BS\<rparr>)) =
     Inr (Some (toy_commit ''v2''), None,
       [\<lparr>verdict = BisectBad, com = toy_commit ''v2'',
         rep = Some \<lparr>Report_Title = ''BUG'', Report_Report = [], Report_Output = []\<rparr>,
         kernelSign = ''sig of v2''\<rparr>,
        \<lparr>verdict = BisectSkip, com = toy_commit ''head'',
         rep = Some (title_report ''failed testing reproducer on head''),
         kernelSign = ''sig of head''\<rparr>]) \<and>
   fst (commitRangeForCause P0 (s0\<lparr>bisecter := BE\<rparr>)) =
     Inl (Errorf ''no release tags before this commit'') \<and>
   (\<exists>n trace. 0 < n \<and> n \<le> length [''v2'', ''v1''] \<and> length trace = n \<and>
     test_tags P0 (take n [''v2'', ''v1''])
       (snd (on_world (PreviousReleaseTags (bisecter s0) (Kernel_Commit (Kernel (cfg s0)))
                         (CompilerType (cfg s0))) s0)) =
       (Inr trace, snd (commitRangeForCause P0 s0)) \<and>
     [\<lparr>verdict = BisectBad, com = toy_commit ''v2'',
       rep = Some \<lparr>Report_Title = ''BUG'', Report_Report = [], Report_Output = []\<rparr>,
       kernelSign = ''sig of v2''\<rparr>,
      \<lparr>verdict = BisectGood, com = toy_commit ''v1'', rep = None,
       kernelSign = ''sig of v1''\<rparr>] = map snd trace \<and>
     Some (toy_commit ''v2'') = last_bad (commit s0) trace \<and>
     (\<forall>cr\<in>set (butlast trace). verdict (snd cr) \<noteq> BisectGood) \<and>
     (case Some (toy_commit ''v1'') of
        None \<Rightarrow> n = length [''v2'', ''v1''] \<and> verdict (snd (last trace)) \<noteq> BisectGood
      | Some g \<Rightarrow> g = fst (last trace) \<and> verdict (snd (last trace)) = BisectGood))"
proof -
  let ?r2 = "\<lparr>verdict = BisectBad, com = toy_commit ''v2'',
             rep = Some \<lparr>Report_Title = ''BUG'', Report_Report = [], Report_Output = []\<rparr>,
             kernelSign = ''sig of v2''\<rparr>"
  let ?rg = "\<lparr>verdict = BisectGood, com = toy_commit ''v1'', rep = None,
             kernelSign = ''sig of v1''\<rparr>"
  let ?rk = "\<lparr>verdict = BisectSkip, com = toy_commit ''head'',
             rep = Some (title_report ''failed testing reproducer on head''),
             kernelSign = ''sig of head''\<rparr>"
  text \<open>the walk stops at a good tag\<close>
  let ?t = "on_world (PreviousReleaseTags (bisecter s0) (Kernel_Commit (Kernel (cfg s0)))
                         (CompilerType (cfg s0))) s0"
  let ?s1 = "snd ?t"
  let ?s2 = "snd (test_tags P0 [''v2''] ?s1)"
  let ?W = "on_world (SwitchCommit (repo ?s2) ''v1'') ?s2"
  let ?s4 = "snd (test P0 (snd ?W))"
  have "fst ?t = Inr [''v2'', ''v1'']" by code_simp
  then have a1: "?t = (Inr [''v2'', ''v1''], ?s1)" by (rule pair_fst_snd)
  have a2: "[''v2'', ''v1''] = [''v2''] @ ''v1'' # []" by simp
  have "fst (test_tags P0 [''v2''] ?s1) = Inr [(toy_commit ''v2'', ?r2)]" by code_simp
  then have a3: "test_tags P0 [''v2''] ?s1 = (Inr [(toy_commit ''v2'', ?r2)], ?s2)"
    by (rule pair_fst_snd)
  have a4: "\<forall>cr\<in>set [(toy_commit ''v2'', ?r2)]. verdict (snd cr) \<noteq> BisectGood" by simp
  have "fst ?W = Inr (toy_commit ''v1'')" by code_simp
  then have a5: "?W = (Inr (toy_commit ''v1''), snd ?W)" by (rule pair_fst_snd)
  have "fst (test P0 (snd ?W)) = Inr ?rg" by code_simp
  then have a6: "test P0 (snd ?W) = (Inr ?rg, ?s4)" by (rule pair_fst_snd)
  have a7: "verdict ?rg = BisectGood" by simp
  note stop = commitRangeForCause_range[OF a1, THEN conjunct1, THEN mp, OF a2, THEN mp, OF a3,
      THEN mp, OF a4, THEN mp, OF a5, THEN mp, OF a6, THEN mp, OF a7]
  have first: "fst (commitRangeForCause P0 s0) =
     Inr (Some (toy_commit ''v2''), Some (toy_commit ''v1''), [?r2, ?rg])"
    unfolding stop by (simp add: last_bad_def)
  then have a8: "commitRangeForCause P0 s0 =
     (Inr (Some (toy_commit ''v2''), Some (toy_commit ''v1''), [?r2, ?rg]),
      snd (commitRangeForCause P0 s0))"
    by (rule pair_fst_snd)
  note third = commitRangeForCause_range[OF a1, THEN conjunct2, THEN conjunct2, THEN conjunct1,
      THEN mp, OF a8]
  text \<open>the walk uses up the tags\<close>
  let ?sB = "s0\<lparr>bisecter := BS\<rparr>"
  let ?u = "on_world (PreviousReleaseTags (bisecter ?sB) (Kernel_Commit (Kernel (cfg ?sB)))
                         (CompilerType (cfg ?sB))) ?sB"
  let ?u1 = "snd ?u"
  let ?u2 = "snd (test_tags P0 [''v2'', ''head''] ?u1)"
  have "fst ?u = Inr [''v2'', ''head'']" by code_simp
  then have b1: "?u = (Inr [''v2'', ''head''], ?u1)" by (rule pair_fst_snd)
  have b2: "[''v2'', ''head''] \<noteq> []" by simp
  have "fst (test_tags P0 [''v2'', ''head''] ?u1) =
          Inr [(toy_commit ''v2'', ?r2), (toy_commit ''head'', ?rk)]"
    by code_simp
  then have b3: "test_tags P0 [''v2'', ''head''] ?u1 =
          (Inr [(toy_commit ''v2'', ?r2), (toy_commit ''head'', ?rk)], ?u2)"
    by (rule pair_fst_snd)
  have b4: "\<forall>cr\<in>set [(toy_commit ''v2'', ?r2), (toy_commit ''head'', ?rk)].
              verdict (snd cr) \<noteq> BisectGood"
    by simp
  note all = commitRangeForCause_range[OF b1, THEN conjunct2, THEN conjunct1, THEN mp, OF b2,
      THEN mp, OF b3, THEN mp, OF b4]
  have second: "fst (commitRangeForCause P0 ?sB) =
     Inr (Some (toy_commit ''v2''), None, [?r2, ?rk])"
    unfolding all by (simp add: last_bad_def)
  text \<open>no tags\<close>
  let ?sE = "s0\<lparr>bisecter := BE\<rparr>"
  let ?v = "on_world (PreviousReleaseTags (bisecter ?sE) (Kernel_Commit (Kernel (cfg ?sE)))
                         (CompilerType (cfg ?sE))) ?sE"
  have "fst ?v = Inr []" by code_simp
  then have e1: "?v = (Inr [], snd ?v)" by (rule pair_fst_snd)
  note none = commitRangeForCause_range[OF e1, THEN conjunct2, THEN conjunct2, THEN conjunct2,
      THEN mp, OF refl]
  have fourth: "fst (commitRangeForCause P0 ?sE) =
     Inl (Errorf ''no release tags before this commit'')"
    unfolding none by simp
  from first second fourth third show ?thesis by (intro conjI)
qed

text \<open>
  Claim C4 as stated fails for the empty list of tags: no tag has the verdict good, and the
  range finder returns an error and no range; the run fails with it.
\<close>

theorem commitRangeForCause_no_tags:
  "fst (on_world (PreviousReleaseTags BE ''start'' ''gcc'') (s0\<lparr>bisecter := BE\<rparr>)) = Inr [] \<and>
   fst (commitRangeForCause P0 (s0\<lparr>bisecter := BE\<rparr>)) =
     Inl (Errorf ''no release tags before this commit'') \<and>
   fst (runImpl P0 (toy_cfg False [] ''start'') RE I0 (''head'', [])) =
     Inl (Errorf ''no release tags before this commit'')"
  by code_simp

text \<open>
  Claim C2, as the code has it. After the setup and through the test at the starting commit
  the active configuration is the full configuration supplied. Without a baseline it stays
  so to the end of \<open>bisect\<close>, and a result carries it. With a baseline, the predicate given to
  \<open>Minimize\<close> makes each candidate the active configuration before it tests it, and when
  \<open>Minimize\<close> returns a configuration without an error the driver makes that one the active
  configuration, whatever verdict was recorded for it and also when none was; it then stays
  the active configuration to the end of \<open>bisect\<close>, and a result carries it. A result of
  \<open>runImpl\<close> is the result of \<open>bisect\<close>.
\<close>

theorem minimizeConfig_adopts_output:
  assumes "bisect_setup P s = (Inr u, s1)"
    and "test P s1 = (Inr tr, s2)"
    and "verdict tr = BisectBad"
    and "bisect P s = (r, s')"
  shows "kernelConfig s2 = Kernel_Config (Kernel (cfg s)) \<and>
         (Kernel_BaselineConfig (Kernel (cfg s)) = [] \<longrightarrow>
            kernelConfig s' = Kernel_Config (Kernel (cfg s)) \<and>
            (r = Inr res \<longrightarrow> Result_Config res = Kernel_Config (Kernel (cfg s)))) \<and>
         (Kernel_BaselineConfig (Kernel (cfg s)) \<noteq> [] \<longrightarrow> minimizer s2 = Some mz \<longrightarrow>
          run_proc (predMinimize P) upd_world
            (Minimize mz (SysTarget (Manager (cfg s2))) (Kernel_Config (Kernel (cfg s2)))
               (Kernel_BaselineConfig (Kernel (cfg s2))) (world s2))
            (Map.empty, s2) = (Inr minConfig, (testResults, s3)) \<longrightarrow>
            minimizeConfig P s2 =
              (Inr (testResults (hash_Hash P minConfig)), s3\<lparr>kernelConfig := minConfig\<rparr>) \<and>
            kernelConfig s' = minConfig \<and>
            (r = Inr res \<longrightarrow> Result_Config res = minConfig)) \<and>
         (predMinimize P c (m, sm) = (pr, (m', sm')) \<longrightarrow> kernelConfig sm' = c) \<and>
         (asBisecter repo0 = Some b \<longrightarrow>
          \<not> (asConfigMinimizer repo0 = None \<and> Kernel_BaselineConfig (Kernel cfg0) \<noteq> []) \<longrightarrow>
          on_world (HeadCommit repo0) (new_env P cfg0 repo0 b inst0 w) = (Inr h, sh) \<longrightarrow>
          s = sh\<lparr>head := Some h\<rparr> \<longrightarrow>
          fst (runImpl P cfg0 repo0 inst0 w) = Inr res \<longrightarrow> r = Inr res)"
proof -
  note full = bisect_setup_full_config[OF assms(1)]
  note step = test_step_fields[OF test_test_step[OF assms(2)]]
  have k2: "kernelConfig s2 = Kernel_Config (Kernel (cfg s))"
    using bisect_setup_kernelConfig[OF assms(1)] full step by simp
  have bl: "Kernel_BaselineConfig (Kernel (cfg s2)) = Kernel_BaselineConfig (Kernel (cfg s))"
    using full step by simp
  have bs: "bisect_search P tr s2 = (r, s')"
    using assms unfolding bisect_def by simp
  have carried: "r = Inr res \<longrightarrow> Result_Config res = kernelConfig s'"
    using bisect_search_config[of P tr s2 res s'] bs by simp
  have none: "kernelConfig s' = Kernel_Config (Kernel (cfg s)) \<and>
            (r = Inr res \<longrightarrow> Result_Config res = Kernel_Config (Kernel (cfg s)))"
    if e: "Kernel_BaselineConfig (Kernel (cfg s)) = []"
  proof -
    have "(Kernel_BaselineConfig (Kernel (cfg s2)) = [] \<and> s2 = s2) \<or>
          (Kernel_BaselineConfig (Kernel (cfg s2)) \<noteq> [] \<and> (\<exists>x. minimizeConfig P s2 = (Inr x, s2)))"
      using e bl by simp
    from bisect_search_tail_kernelConfig[OF this bs] have "kernelConfig s' = kernelConfig s2" .
    with k2 carried show ?thesis by simp
  qed
  have some: "minimizeConfig P s2 =
              (Inr (testResults (hash_Hash P minConfig)), s3\<lparr>kernelConfig := minConfig\<rparr>) \<and>
            kernelConfig s' = minConfig \<and>
            (r = Inr res \<longrightarrow> Result_Config res = minConfig)"
    if ne: "Kernel_BaselineConfig (Kernel (cfg s)) \<noteq> []" and mz: "minimizer s2 = Some mz"
      and run: "run_proc (predMinimize P) upd_world
            (Minimize mz (SysTarget (Manager (cfg s2))) (Kernel_Config (Kernel (cfg s2)))
               (Kernel_BaselineConfig (Kernel (cfg s2))) (world s2))
            (Map.empty, s2) = (Inr minConfig, (testResults, s3))"
  proof -
    have mc: "minimizeConfig P s2 =
              (Inr (testResults (hash_Hash P minConfig)), s3\<lparr>kernelConfig := minConfig\<rparr>)"
      unfolding minimizeConfig_def by (simp add: mz run)
    then have "(Kernel_BaselineConfig (Kernel (cfg s2)) = [] \<and> s3\<lparr>kernelConfig := minConfig\<rparr> = s2) \<or>
          (Kernel_BaselineConfig (Kernel (cfg s2)) \<noteq> [] \<and>
           (\<exists>x. minimizeConfig P s2 = (Inr x, s3\<lparr>kernelConfig := minConfig\<rparr>)))"
      using ne bl by simp
    from bisect_search_tail_kernelConfig[OF this bs]
    have "kernelConfig s' = minConfig" by simp
    with mc carried show ?thesis by simp
  qed
  have cand: "predMinimize P c (m, sm) = (pr, (m', sm')) \<longrightarrow> kernelConfig sm' = c"
    by (rule impI) (rule predMinimize_candidate)
  have top: "asBisecter repo0 = Some b \<longrightarrow>
          \<not> (asConfigMinimizer repo0 = None \<and> Kernel_BaselineConfig (Kernel cfg0) \<noteq> []) \<longrightarrow>
          on_world (HeadCommit repo0) (new_env P cfg0 repo0 b inst0 w) = (Inr h, sh) \<longrightarrow>
          s = sh\<lparr>head := Some h\<rparr> \<longrightarrow>
          fst (runImpl P cfg0 repo0 inst0 w) = Inr res \<longrightarrow> r = Inr res"
  proof (intro impI)
    assume a: "asBisecter repo0 = Some b"
      "\<not> (asConfigMinimizer repo0 = None \<and> Kernel_BaselineConfig (Kernel cfg0) \<noteq> [])"
      "on_world (HeadCommit repo0) (new_env P cfg0 repo0 b inst0 w) = (Inr h, sh)"
      "s = sh\<lparr>head := Some h\<rparr>"
      "fst (runImpl P cfg0 repo0 inst0 w) = Inr res"
    from assms(4) a(4) have "bisect P (sh\<lparr>head := Some h\<rparr>) = (r, s')" by simp
    from runImpl_result_only[OF a(1,2,3) this a(5)] show "r = Inr res" .
  qed
  have N: "Kernel_BaselineConfig (Kernel (cfg s)) = [] \<longrightarrow>
            kernelConfig s' = Kernel_Config (Kernel (cfg s)) \<and>
            (r = Inr res \<longrightarrow> Result_Config res = Kernel_Config (Kernel (cfg s)))"
    by (rule impI) (rule none)
  have S: "Kernel_BaselineConfig (Kernel (cfg s)) \<noteq> [] \<longrightarrow> minimizer s2 = Some mz \<longrightarrow>
          run_proc (predMinimize P) upd_world
            (Minimize mz (SysTarget (Manager (cfg s2))) (Kernel_Config (Kernel (cfg s2)))
               (Kernel_BaselineConfig (Kernel (cfg s2))) (world s2))
            (Map.empty, s2) = (Inr minConfig, (testResults, s3)) \<longrightarrow>
            minimizeConfig P s2 =
              (Inr (testResults (hash_Hash P minConfig)), s3\<lparr>kernelConfig := minConfig\<rparr>) \<and>
            kernelConfig s' = minConfig \<and>
            (r = Inr res \<longrightarrow> Result_Config res = minConfig)"
    by (intro impI) (rule some)
  show ?thesis by (rule conjI[OF k2 conjI[OF N conjI[OF S conjI[OF cand top]]]])
qed

theorem minimizeConfig_adopts_output_witness:
  "kernelConfig (snd (bisect P0
      ((snd (on_world (HeadCommit R2)
               (new_env P0 (toy_cfg False [] ''start'') R2 B2 I0 (''head'', []))))
         \<lparr>head := Some (toy_commit ''head'')\<rparr>))) = ''full'' \<and>
   (\<exists>res. fst (runImpl P0 (toy_cfg False [] ''start'') R2 I0 (''head'', [])) = Inr res \<and>
          Result_Config res = ''full'') \<and>
   kernelConfig (snd (bisect P0
      ((snd (on_world (HeadCommit R2)
               (new_env P0 (toy_cfg False ''base'' ''start'') R2 B2 I0 (''head'', []))))
         \<lparr>head := Some (toy_commit ''head'')\<rparr>))) = ''base'' \<and>
   (\<exists>res. fst (runImpl P0 (toy_cfg False ''base'' ''start'') R2 I0 (''head'', [])) = Inr res \<and>
          Result_Config res = ''base'')"
proof -
  let ?w = "(''head'', []) :: toy_world"
  let ?rb = "\<lparr>verdict = BisectBad, com = toy_commit ''start'',
             rep = Some \<lparr>Report_Title = ''BUG'', Report_Report = [], Report_Output = []\<rparr>,
             kernelSign = ''sig of start''\<rparr>"
  have vb: "verdict ?rb = BisectBad" by simp
  have bis: "asBisecter R2 = Some B2" by (simp add: R2_def toy_repo_def)
  text \<open>no baseline\<close>
  let ?cN = "toy_cfg False [] ''start''"
  let ?hN = "on_world (HeadCommit R2) (new_env P0 ?cN R2 B2 I0 ?w)"
  let ?aN = "(snd ?hN)\<lparr>head := Some (toy_commit ''head'')\<rparr>"
  let ?n1 = "snd (bisect_setup P0 ?aN)"
  let ?n2 = "snd (test P0 ?n1)"
  let ?RN = "\<lparr>Result_Commits = [toy_commit ''v2''],
          Result_Report = Some \<lparr>Report_Title = ''BUG'', Report_Report = [], Report_Output = []\<rparr>,
          Result_Commit = None, Result_Config = ''full'',
          Result_NoopChange = False, Result_IsRelease = False\<rparr>"
  have "fst (bisect_setup P0 ?aN) = Inr ()" by code_simp
  then have n1: "bisect_setup P0 ?aN = (Inr (), ?n1)" by (rule pair_fst_snd)
  have "fst (test P0 ?n1) = Inr ?rb" by code_simp
  then have n2: "test P0 ?n1 = (Inr ?rb, ?n2)" by (rule pair_fst_snd)
  have n3: "bisect P0 ?aN = (fst (bisect P0 ?aN), snd (bisect P0 ?aN))" by simp
  have n4: "Kernel_BaselineConfig (Kernel (cfg ?aN)) = []" by code_simp
  have n5: "Kernel_Config (Kernel (cfg ?aN)) = ''full''" by code_simp
  have "fst ?hN = Inr (toy_commit ''head'')" by code_simp
  then have n6: "?hN = (Inr (toy_commit ''head''), snd ?hN)" by (rule pair_fst_snd)
  have n7: "\<not> (asConfigMinimizer R2 = None \<and> Kernel_BaselineConfig (Kernel ?cN) \<noteq> [])"
    by (simp add: R2_def toy_repo_def)
  have n8: "fst (runImpl P0 ?cN R2 I0 ?w) = Inr ?RN" by code_simp
  note thN = minimizeConfig_adopts_output[OF n1 n2 vb n3, where res = ?RN and ?repo0.0 = R2
      and b = B2 and ?cfg0.0 = ?cN and ?inst0.0 = I0 and w = ?w and h = "toy_commit ''head''"
      and sh = "snd ?hN"]
  note nA = thN[THEN conjunct2, THEN conjunct1, THEN mp, OF n4]
  note nB = thN[THEN conjunct2, THEN conjunct2, THEN conjunct2, THEN conjunct2,
      THEN mp, OF bis, THEN mp, OF n7, THEN mp, OF n6, THEN mp, OF refl, THEN mp, OF n8]
  have first: "kernelConfig (snd (bisect P0 ?aN)) = ''full''"
    using nA[THEN conjunct1] n5 by simp
  have "Result_Config ?RN = ''full''"
    using nA[THEN conjunct2, THEN mp, OF nB] n5 by simp
  with n8 have second: "\<exists>res. fst (runImpl P0 ?cN R2 I0 ?w) = Inr res \<and> Result_Config res = ''full''"
    by (intro exI[where x = ?RN] conjI)
  text \<open>a baseline\<close>
  let ?cB = "toy_cfg False ''base'' ''start''"
  let ?hB = "on_world (HeadCommit R2) (new_env P0 ?cB R2 B2 I0 ?w)"
  let ?aB = "(snd ?hB)\<lparr>head := Some (toy_commit ''head'')\<rparr>"
  let ?b1 = "snd (bisect_setup P0 ?aB)"
  let ?b2 = "snd (test P0 ?b1)"
  let ?mz = "the (minimizer ?b2)"
  let ?X = "run_proc (predMinimize P0) upd_world
            (Minimize ?mz (SysTarget (Manager (cfg ?b2))) (Kernel_Config (Kernel (cfg ?b2)))
               (Kernel_BaselineConfig (Kernel (cfg ?b2))) (world ?b2))
            (Map.empty, ?b2)"
  let ?RB = "\<lparr>Result_Commits = [toy_commit ''v2''], Result_Report = None,
          Result_Commit = None, Result_Config = ''base'',
          Result_NoopChange = False, Result_IsRelease = False\<rparr>"
  have "fst (bisect_setup P0 ?aB) = Inr ()" by code_simp
  then have b1: "bisect_setup P0 ?aB = (Inr (), ?b1)" by (rule pair_fst_snd)
  have "fst (test P0 ?b1) = Inr ?rb" by code_simp
  then have b2: "test P0 ?b1 = (Inr ?rb, ?b2)" by (rule pair_fst_snd)
  have b3: "bisect P0 ?aB = (fst (bisect P0 ?aB), snd (bisect P0 ?aB))" by simp
  have b4: "Kernel_BaselineConfig (Kernel (cfg ?aB)) \<noteq> []" by code_simp
  have "\<not> Option.is_none (minimizer ?b2)" by code_simp
  then have b5: "minimizer ?b2 = Some ?mz" by (simp add: Option.is_none_def)
  have "fst ?X = Inr ''base''" by code_simp
  then have "?X = (Inr ''base'', snd ?X)" by (rule pair_fst_snd)
  then have b6: "?X = (Inr ''base'', (fst (snd ?X), snd (snd ?X)))" by simp
  have "fst ?hB = Inr (toy_commit ''head'')" by code_simp
  then have b7: "?hB = (Inr (toy_commit ''head''), snd ?hB)" by (rule pair_fst_snd)
  have b8: "\<not> (asConfigMinimizer R2 = None \<and> Kernel_BaselineConfig (Kernel ?cB) \<noteq> [])"
    by (simp add: R2_def toy_repo_def)
  have b9: "fst (runImpl P0 ?cB R2 I0 ?w) = Inr ?RB" by code_simp
  note thB = minimizeConfig_adopts_output[OF b1 b2 vb b3, where res = ?RB and ?repo0.0 = R2
      and b = B2 and ?cfg0.0 = ?cB and ?inst0.0 = I0 and w = ?w and h = "toy_commit ''head''"
      and sh = "snd ?hB"]
  note bA = thB[THEN conjunct2, THEN conjunct2, THEN conjunct1, THEN mp, OF b4, THEN mp, OF b5,
      THEN mp, OF b6, THEN conjunct2]
  note bB = thB[THEN conjunct2, THEN conjunct2, THEN conjunct2, THEN conjunct2,
      THEN mp, OF bis, THEN mp, OF b8, THEN mp, OF b7, THEN mp, OF refl, THEN mp, OF b9]
  note third = bA[THEN conjunct1]
  have "Result_Config ?RB = ''base''"
    using bA[THEN conjunct2, THEN mp, OF bB] by simp
  with b9 have fourth: "\<exists>res. fst (runImpl P0 ?cB R2 I0 ?w) = Inr res \<and> Result_Config res = ''base''"
    by (intro exI[where x = ?RB] conjI)
  from first second third fourth show ?thesis by (intro conjI)
qed

text \<open>
  A run with a baseline whose minimizer tests the baseline once and returns it. Every trial
  with the baseline succeeds, so the verdict recorded for it is good; the driver makes it
  the active configuration all the same, and the result of the run carries it.
\<close>

theorem minimizeConfig_adopts_good_config:
  "fst (minimizeConfig P0
         (snd (test P0 (snd (bisect_setup P0
            ((snd (on_world (HeadCommit R2)
                     (new_env P0 (toy_cfg False ''base'' ''start'') R2 B2 I0 (''head'', []))))
               \<lparr>head := Some (toy_commit ''head'')\<rparr>)))))) =
     Inr (Some \<lparr>verdict = BisectGood, com = toy_commit ''start'', rep = None,
                kernelSign = ''sig of start''\<rparr>) \<and>
   kernelConfig (snd (minimizeConfig P0
         (snd (test P0 (snd (bisect_setup P0
            ((snd (on_world (HeadCommit R2)
                     (new_env P0 (toy_cfg False ''base'' ''start'') R2 B2 I0 (''head'', []))))
               \<lparr>head := Some (toy_commit ''head'')\<rparr>))))))) = ''base'' \<and>
   ''base'' \<noteq> Kernel_Config (Kernel (toy_cfg False ''base'' ''start'')) \<and>
   fst (runImpl P0 (toy_cfg False ''base'' ''start'') R2 I0 (''head'', [])) =
     Inr \<lparr>Result_Commits = [toy_commit ''v2''], Result_Report = None,
          Result_Commit = None, Result_Config = ''base'',
          Result_NoopChange = False, Result_IsRelease = False\<rparr>"
  by code_simp

end
